theory Spec2Isabelle
  imports Main "HOL-Library.Word"
begin

unbundle bit_operations_syntax

section \<open>The boundary record and the calls across the boundary (Api.h)\<close>

text \<open>
  A pointer (\<open>void*\<close>, \<open>Engine*\<close>) is an address, \<open>0\<close> being \<open>nullptr\<close>. A \<open>const char*\<close> is
  the NUL-terminated text it points to, \<open>None\<close> being \<open>nullptr\<close>. A \<open>double\<close> is its 64-bit
  IEEE 754 pattern: the sources never compute with doubles, they only store them, compare
  them with \<open>0.0\<close> and write the constants \<open>0.0\<close> and \<open>1.0\<close>.
\<close>

type_synonym ptr = nat
type_synonym int32 = "32 word"
type_synonym double = "64 word"

definition double_0 :: double where
  "double_0 = 0"

definition double_1 :: double where
  "double_1 = 0x3FF0000000000000"

definition double_minus_0 :: double where
  "double_minus_0 = 0x8000000000000000"

text \<open>The two zeros, \<open>+0.0\<close> and \<open>-0.0\<close>.\<close>

definition double_iszero :: "double \<Rightarrow> bool" where
  "double_iszero d \<longleftrightarrow> d = double_0 \<or> d = double_minus_0"

text \<open>A NaN has all eleven exponent bits set and a mantissa that is not zero.\<close>

definition double_isnan :: "double \<Rightarrow> bool" where
  "double_isnan d \<longleftrightarrow>
     d AND 0x7FF0000000000000 = 0x7FF0000000000000 \<and> d AND 0x000FFFFFFFFFFFFF \<noteq> 0"

text \<open>
  The comparison \<open>x != y\<close> of two doubles: a NaN differs from everything, the two zeros
  are equal, and any other two doubles are equal when their patterns are.
\<close>

definition double_ne :: "double \<Rightarrow> double \<Rightarrow> bool" where
  "double_ne x y \<longleftrightarrow>
     double_isnan x \<or> double_isnan y \<or>
     \<not> (x = y \<or> (double_iszero x \<and> double_iszero y))"

text \<open>\<open>std::string::c_str()\<close> read as a C string: the text up to the first NUL.\<close>

definition c_str :: "string \<Rightarrow> string" where
  "c_str s = takeWhile (\<lambda>c. c \<noteq> CHR 0x00) s"

text \<open>\<open>enum minijs_kind : int32_t\<close>.\<close>

definition MINIJS_NULL :: int32 where "MINIJS_NULL = 0"
definition MINIJS_NUMBER :: int32 where "MINIJS_NUMBER = 1"
definition MINIJS_BOOL :: int32 where "MINIJS_BOOL = 2"
definition MINIJS_STRING :: int32 where "MINIJS_STRING = 3"
definition MINIJS_ARRAY :: int32 where "MINIJS_ARRAY = 4"
definition MINIJS_OBJECT :: int32 where "MINIJS_OBJECT = 5"
definition MINIJS_FUNCTION :: int32 where "MINIJS_FUNCTION = 6"
definition MINIJS_CLASS :: int32 where "MINIJS_CLASS = 7"
definition MINIJS_TASK :: int32 where "MINIJS_TASK = 8"

text \<open>\<open>struct minijs_value\<close>.\<close>

record minijs_value =
  nv_kind :: int32
  nv_num :: double
  nv_boolean :: int32
  nv_str :: "string option"
  nv_handle :: ptr

text \<open>\<open>minijs_value r{}\<close>: every field zero.\<close>

definition minijs_value_zero :: minijs_value where
  "minijs_value_zero =
     \<lparr>nv_kind = 0, nv_num = double_0, nv_boolean = 0, nv_str = None, nv_handle = 0\<rparr>"

text \<open>
  The functions of Api.h are implemented by the runtime, which is not part of these
  sources. What the wrapper does to the runtime is the sequence of boundary calls it
  makes, in order; each operation below returns that sequence beside its result.
\<close>

datatype call =
    minijs_malloc nat
  | minijs_free string
  | minijs_handle_retain ptr
  | minijs_handle_release ptr
  | minijs_global_declare ptr string minijs_value
  | minijs_class_add_method ptr string ptr
  | minijs_array_length ptr
  | minijs_array_get ptr int32
  | minijs_array_set ptr int32 minijs_value
  | minijs_array_push ptr minijs_value
  | minijs_object_has ptr string
  | minijs_object_get ptr string
  | minijs_object_set ptr string minijs_value
  | minijs_object_keys ptr

text \<open>
  What the runtime answers is a parameter: whether \<open>minijs_malloc(n)\<close> returns memory,
  and the results of the read calls.
\<close>

record runtime =
  malloc_ok :: "nat \<Rightarrow> bool"
  array_length_result :: "ptr \<Rightarrow> int32"
  array_get_result :: "ptr \<Rightarrow> int32 \<Rightarrow> minijs_value"
  object_has_result :: "ptr \<Rightarrow> string \<Rightarrow> int32"
  object_get_result :: "ptr \<Rightarrow> string \<Rightarrow> minijs_value"
  object_keys_result :: "ptr \<Rightarrow> string option"

text \<open>How often a handle is retained and released in a sequence of calls.\<close>

definition retains :: "ptr \<Rightarrow> call list \<Rightarrow> nat" where
  "retains h cs = count_list cs (minijs_handle_retain h)"

definition releases :: "ptr \<Rightarrow> call list \<Rightarrow> nat" where
  "releases h cs = count_list cs (minijs_handle_release h)"

text \<open>
  A C++ exception: one derived from \<open>std::exception\<close>, with its \<open>what()\<close>, or any other
  thrown object.
\<close>

datatype exn = std_exception string | other_exception

definition runtime_error :: "string \<Rightarrow> exn" where
  "runtime_error msg = std_exception msg"

section \<open>class Value (MiniJspp.hpp)\<close>

text \<open>
  \<open>enum class Kind : int32_t\<close> has the values of \<open>minijs_kind\<close>; as an enumeration with a
  fixed underlying type it can hold any \<open>int32_t\<close>, which is what the cast in
  \<open>fromNative\<close> relies on.
\<close>

type_synonym Kind = int32

definition Kind_Null :: Kind where "Kind_Null = MINIJS_NULL"
definition Kind_Number :: Kind where "Kind_Number = MINIJS_NUMBER"
definition Kind_Bool :: Kind where "Kind_Bool = MINIJS_BOOL"
definition Kind_String :: Kind where "Kind_String = MINIJS_STRING"
definition Kind_Array :: Kind where "Kind_Array = MINIJS_ARRAY"
definition Kind_Object :: Kind where "Kind_Object = MINIJS_OBJECT"
definition Kind_Function :: Kind where "Kind_Function = MINIJS_FUNCTION"
definition Kind_Class :: Kind where "Kind_Class = MINIJS_CLASS"
definition Kind_Task :: Kind where "Kind_Task = MINIJS_TASK"

text \<open>The members \<open>_kind\<close>, \<open>_num\<close>, \<open>_b\<close>, \<open>_s\<close>, \<open>_h\<close>.\<close>

record Value =
  v_kind :: Kind
  v_num :: double
  v_b :: bool
  v_s :: string
  v_h :: ptr

definition Value_Null :: Value where
  "Value_Null = \<lparr>v_kind = Kind_Null, v_num = double_0, v_b = False, v_s = [], v_h = 0\<rparr>"

definition Value_Number :: "double \<Rightarrow> Value" where
  "Value_Number n = Value_Null\<lparr>v_kind := Kind_Number, v_num := n\<rparr>"

definition Value_Bool :: "bool \<Rightarrow> Value" where
  "Value_Bool b = Value_Null\<lparr>v_kind := Kind_Bool, v_b := b\<rparr>"

definition Value_String :: "string \<Rightarrow> Value" where
  "Value_String s = Value_Null\<lparr>v_kind := Kind_String, v_s := s\<rparr>"

definition Value_Handle :: "Kind \<Rightarrow> ptr \<Rightarrow> bool \<Rightarrow> Value \<times> call list" where
  "Value_Handle k h retain =
     (Value_Null\<lparr>v_kind := k, v_h := h\<rparr>,
      if retain \<and> h \<noteq> 0 then [minijs_handle_retain h] else [])"

definition isHandleKind :: "Value \<Rightarrow> bool" where
  "isHandleKind v \<longleftrightarrow>
     v_kind v = Kind_Array \<or> v_kind v = Kind_Object \<or> v_kind v = Kind_Function \<or>
     v_kind v = Kind_Class \<or> v_kind v = Kind_Task"

definition toNumber :: "Value \<Rightarrow> double \<Rightarrow> double" where
  "toNumber v def =
     (if v_kind v = Kind_Number then v_num v
      else if v_kind v = Kind_Bool then (if v_b v then double_1 else double_0)
      else def)"

definition toBool :: "Value \<Rightarrow> bool \<Rightarrow> bool" where
  "toBool v def =
     (if v_kind v = Kind_Bool then v_b v
      else if v_kind v = Kind_Number then double_ne (v_num v) double_0
      else def)"

definition toStringRef :: "Value \<Rightarrow> string" where
  "toStringRef v = v_s v"

text \<open>\<open>detachHandle\<close>: the handle returned, and the wrapper afterwards.\<close>

definition detachHandle :: "Value \<Rightarrow> ptr \<times> Value" where
  "detachHandle v =
     (v_h v, v\<lparr>v_h := 0, v_kind := Kind_Null, v_num := double_0, v_b := False, v_s := []\<rparr>)"

text \<open>\<open>cleanup\<close>: the wrapper afterwards, and the calls made.\<close>

definition cleanup :: "Value \<Rightarrow> Value \<times> call list" where
  "cleanup v =
     (v\<lparr>v_h := 0\<rparr>,
      if v_h v \<noteq> 0 \<and> isHandleKind v then [minijs_handle_release (v_h v)] else [])"

text \<open>\<open>~Value()\<close>: the calls made while the wrapper is destroyed.\<close>

definition Value_dtor :: "Value \<Rightarrow> call list" where
  "Value_dtor v = snd (cleanup v)"

text \<open>\<open>Value(const Value& o)\<close>: the new wrapper, and the calls made.\<close>

definition Value_copy :: "Value \<Rightarrow> Value \<times> call list" where
  "Value_copy other =
     (other,
      if v_h other \<noteq> 0 \<and> isHandleKind other then [minijs_handle_retain (v_h other)] else [])"

text \<open>
  What a move leaves in the source: the members the code resets, and the string, which
  a move of \<open>std::string\<close> leaves empty.
\<close>

definition moved_from :: "Value \<Rightarrow> Value" where
  "moved_from other = other\<lparr>v_s := [], v_h := 0, v_kind := Kind_Null, v_num := double_0, v_b := False\<rparr>"

text \<open>\<open>Value(Value&& o)\<close>: the new wrapper and the source afterwards; no call is made.\<close>

definition Value_move :: "Value \<Rightarrow> Value \<times> Value" where
  "Value_move other = (other, moved_from other)"

text \<open>
  \<open>operator=(const Value& o)\<close> for \<open>this != &o\<close>: the assigned wrapper afterwards, and the
  calls made. (For \<open>this == &o\<close> the operator returns at once; whether two wrappers are
  the same object is decided where wrappers have addresses, in \<open>step\<close> below.)
\<close>

definition Value_copy_assign :: "Value \<Rightarrow> Value \<Rightarrow> Value \<times> call list" where
  "Value_copy_assign this other =
     (other,
      snd (cleanup this) @
      (if v_h other \<noteq> 0 \<and> isHandleKind other then [minijs_handle_retain (v_h other)] else []))"

text \<open>
  \<open>operator=(Value&& o)\<close> for \<open>this != &o\<close>: the assigned wrapper and the source
  afterwards, and the calls made.
\<close>

definition Value_move_assign :: "Value \<Rightarrow> Value \<Rightarrow> Value \<times> Value \<times> call list" where
  "Value_move_assign this other = (other, moved_from other, snd (cleanup this))"

definition fromNative :: "minijs_value \<Rightarrow> bool \<Rightarrow> Value \<times> call list" where
  "fromNative nv retainHandle =
     (let k = nv_kind nv in
      if k = Kind_Null then (Value_Null, [])
      else if k = Kind_Number then (Value_Number (nv_num nv), [])
      else if k = Kind_Bool then (Value_Bool (nv_boolean nv \<noteq> 0), [])
      else if k = Kind_String then
        (Value_String (case nv_str nv of Some s \<Rightarrow> s | None \<Rightarrow> []), [])
      else if k = Kind_Array \<or> k = Kind_Object \<or> k = Kind_Function \<or> k = Kind_Class \<or>
              k = Kind_Task then Value_Handle k (nv_handle nv) retainHandle
      else (Value_Null, []))"

section \<open>class Engine\<close>

text \<open>
  A callback is a closure of the host. A call of it returns a \<open>Value\<close> or throws, and
  makes boundary calls of its own on the way; it reads its arguments through \<open>const\<close>
  references. An empty \<open>std::function\<close> is the closure that throws
  \<open>std::bad_function_call\<close>.
\<close>

type_synonym Callback = "Value list \<Rightarrow> Value \<Rightarrow> (exn + Value) \<times> call list"

text \<open>\<open>struct Binding\<close>, with \<open>engine\<close> the address of the owning Engine.\<close>

record Binding =
  engine :: ptr
  cb :: Callback

text \<open>The members \<open>_it\<close> and \<open>_bindings\<close>.\<close>

record Engine =
  e_it :: ptr
  e_bindings :: "Binding list"

text \<open>
  \<open>valueToNativeArg\<close>: the boundary record, and what it leaves in \<open>*outTempStr\<close>. The
  string of a String value is passed as \<open>c_str()\<close> of the wrapper's own string.
\<close>

definition valueToNativeArg :: "Value \<Rightarrow> minijs_value \<times> string option" where
  "valueToNativeArg v =
     (let nv = \<lparr>nv_kind = v_kind v, nv_num = double_0, nv_boolean = 0, nv_str = None,
                 nv_handle = 0\<rparr> in
      if v_kind v = Kind_Null then (nv\<lparr>nv_kind := MINIJS_NULL\<rparr>, None)
      else if v_kind v = Kind_Number then
        (nv\<lparr>nv_kind := MINIJS_NUMBER, nv_num := toNumber v double_0\<rparr>, None)
      else if v_kind v = Kind_Bool then
        (nv\<lparr>nv_kind := MINIJS_BOOL, nv_boolean := (if toBool v False then 1 else 0)\<rparr>, None)
      else if v_kind v = Kind_String then
        (nv\<lparr>nv_kind := MINIJS_STRING, nv_str := Some (c_str (toStringRef v))\<rparr>, None)
      else if v_kind v = Kind_Array \<or> v_kind v = Kind_Object \<or> v_kind v = Kind_Function \<or>
              v_kind v = Kind_Class \<or> v_kind v = Kind_Task then
        (nv\<lparr>nv_kind := v_kind v, nv_handle := v_h v\<rparr>, None)
      else (nv, None))"

text \<open>\<open>if (tmp) minijs_free(tmp)\<close>.\<close>

definition free_tmp :: "string option \<Rightarrow> call list" where
  "free_tmp tmp = (case tmp of None \<Rightarrow> [] | Some t \<Rightarrow> [minijs_free t])"

text \<open>
  \<open>declareCopy\<close>: the calls made. The value is passed by \<open>const\<close> reference and is not
  written to. The record is first filled field by field and then overwritten with the
  result of \<open>valueToNativeArg\<close>, which is the one passed on.
\<close>

definition declareCopy :: "Engine \<Rightarrow> string \<Rightarrow> Value \<Rightarrow> call list" where
  "declareCopy e name v =
     (let (nv, tmp) = valueToNativeArg v;
          dup = isHandleKind v \<and> v_h v \<noteq> 0;
          nv' = (if dup then nv\<lparr>nv_handle := v_h v\<rparr> else nv)
      in (if dup then [minijs_handle_retain (v_h v)] else []) @
         [minijs_global_declare (e_it e) (c_str name) nv'] @
         free_tmp tmp)"

text \<open>\<open>declareMove\<close>: the caller's value afterwards, and the calls made.\<close>

definition declareMove :: "Engine \<Rightarrow> string \<Rightarrow> Value \<Rightarrow> Value \<times> call list" where
  "declareMove e name v =
     (let (nv, tmp) = valueToNativeArg v;
          (nv', v') = (if isHandleKind v \<and> v_h v \<noteq> 0
                       then (let (h, v1) = detachHandle v in (nv\<lparr>nv_handle := h\<rparr>, v1))
                       else (nv, v))
      in (v', [minijs_global_declare (e_it e) (c_str name) nv'] @ free_tmp tmp))"

text \<open>
  \<open>allocUtf8WithMinijsMalloc\<close>: the pointer returned (\<open>nullptr\<close> when the runtime has no
  memory), and the call made.
\<close>

definition allocUtf8WithMinijsMalloc :: "runtime \<Rightarrow> string \<Rightarrow> string option \<times> call list" where
  "allocUtf8WithMinijsMalloc rt s =
     (if malloc_ok rt (length s + 1) then Some (c_str s) else None,
      [minijs_malloc (length s + 1)])"

text \<open>
  The trampoline is where the source catches exceptions, so for the trampoline the
  host's own heap is part of the model as well: every place where the trampoline
  itself builds a \<open>std::string\<close> or grows the vector may throw \<open>std::bad_alloc\<close>. Whether
  an allocation succeeds is a parameter, place by place (a string short enough to be
  stored in place needs none, and \<open>alloc_ok\<close> is true for it); \<open>bad_alloc_what\<close> is the
  \<open>what()\<close> of the library's \<open>std::bad_alloc\<close>. The allocations of the closure are the
  closure's own: a closure that cannot allocate is a closure that throws.
\<close>

datatype alloc_site =
    alloc_args
  | alloc_arg_string nat
  | alloc_this_string
  | alloc_ret_string
  | alloc_message

record host =
  alloc_ok :: "alloc_site \<Rightarrow> bool"
  bad_alloc_what :: string

definition bad_alloc :: "host \<Rightarrow> exn" where
  "bad_alloc hs = std_exception (bad_alloc_what hs)"

text \<open>\<open>fromNative\<close> builds a \<open>std::string\<close> from the record's text for a String with text.\<close>

definition needs_string :: "minijs_value \<Rightarrow> bool" where
  "needs_string nv \<longleftrightarrow> nv_kind nv = Kind_String \<and> nv_str nv \<noteq> None"

text \<open>
  The loop of the trampoline over \<open>argv\<close>, from index \<open>i\<close> on: every argument converted,
  handles retained. The result is whether the loop came to its end, the wrappers in the
  vector, and the calls made; the loop stops where the string of an argument cannot be
  allocated.
\<close>

fun convert_args :: "host \<Rightarrow> nat \<Rightarrow> minijs_value list \<Rightarrow> bool \<times> Value list \<times> call list" where
  "convert_args hs i [] = (True, [], [])"
| "convert_args hs i (a # as) =
     (if needs_string a \<and> \<not> alloc_ok hs (alloc_arg_string i) then (False, [], [])
      else (let (v, cs) = fromNative a True; (ok, vs, cs') = convert_args hs (Suc i) as
            in (ok, v # vs, cs @ cs')))"

text \<open>
  The \<open>try\<close> block up to the call of the closure: \<open>args.reserve\<close>, the loop, and
  \<open>Value tv = Value::Null(); if (thisVal) tv = Value::fromNative(*thisVal, true);\<close>
  (the move assignment cleans up a Null wrapper, which makes no call). The result is
  whether the block came as far as the call, the vector \<open>args\<close>, the wrapper \<open>tv\<close>
  (Null where it was not assigned yet) and the calls made.
\<close>

definition prepare ::
  "host \<Rightarrow> minijs_value list \<Rightarrow> minijs_value option \<Rightarrow> bool \<times> Value list \<times> Value \<times> call list" where
  "prepare hs argv thisVal =
     (if argv \<noteq> [] \<and> \<not> alloc_ok hs alloc_args then (False, [], Value_Null, [])
      else
        (let (ok, args, cs) = convert_args hs 0 argv in
         if \<not> ok then (False, args, Value_Null, cs)
         else
           (case thisVal of
              None \<Rightarrow> (True, args, Value_Null, cs)
            | Some t \<Rightarrow>
                if needs_string t \<and> \<not> alloc_ok hs alloc_this_string
                then (False, args, Value_Null, cs)
                else (let (tv, cs_tv) = fromNative t True in (True, args, tv, cs @ cs_tv)))))"

text \<open>
  The conversion of the closure's result: the record returned to the runtime, the
  wrapper \<open>ret\<close> afterwards, and the calls made.
\<close>

definition convert_return :: "runtime \<Rightarrow> Value \<Rightarrow> minijs_value \<times> Value \<times> call list" where
  "convert_return rt ret =
     (let out = \<lparr>nv_kind = v_kind ret, nv_num = toNumber ret double_0,
                  nv_boolean = (if toBool ret False then 1 else 0), nv_str = None,
                  nv_handle = 0\<rparr> in
      if v_kind ret = Kind_String then
        (let (p, cs) = allocUtf8WithMinijsMalloc rt (toStringRef ret)
         in (out\<lparr>nv_kind := MINIJS_STRING, nv_str := p\<rparr>, ret, cs))
      else if isHandleKind ret \<and> v_h ret \<noteq> 0 then
        (let (h, ret') = detachHandle ret
         in (out\<lparr>nv_kind := v_kind ret, nv_handle := h\<rparr>, ret', []))
      else (out, ret, []))"

text \<open>
  The \<open>try\<close> block: the record it returns or the exception that leaves it, and the
  calls made, those of the closure among them. When the closure returns, the locals
  are destroyed after the result is converted, \<open>ret\<close> first, then \<open>tv\<close>, then \<open>args\<close>; when
  an exception leaves the block, the locals constructed so far are destroyed. The copy
  \<open>std::string s = ret.toStringRef()\<close> of a String result is an allocation too.
\<close>

definition try_block ::
  "runtime \<Rightarrow> host \<Rightarrow> minijs_value list \<Rightarrow> minijs_value option \<Rightarrow> Binding \<Rightarrow>
   (exn + minijs_value) \<times> call list" where
  "try_block rt hs argv thisVal b =
     (let (ok, args, tv, cs_in) = prepare hs argv thisVal;
          unwind = Value_dtor tv @ concat (map Value_dtor args)
      in if \<not> ok then (Inl (bad_alloc hs), cs_in @ unwind)
         else
           (let (r, cs_cb) = cb b args tv
            in case r of
                 Inl e \<Rightarrow> (Inl e, cs_in @ cs_cb @ unwind)
               | Inr ret \<Rightarrow>
                   if v_kind ret = Kind_String \<and> \<not> alloc_ok hs alloc_ret_string
                   then (Inl (bad_alloc hs), cs_in @ cs_cb @ Value_dtor ret @ unwind)
                   else
                     (let (out, ret', cs) = convert_return rt ret
                      in (Inr out, cs_in @ cs_cb @ cs @ Value_dtor ret' @ unwind))))"

text \<open>The text the two handlers build.\<close>

definition error_message :: "exn \<Rightarrow> string" where
  "error_message e =
     (case e of std_exception what \<Rightarrow> ''Error: '' @ what
      | other_exception \<Rightarrow> ''Error: unknown native exception'')"

text \<open>
  The two \<open>catch\<close> handlers: the record returned, and the call made. Each handler
  builds its message in a \<open>std::string msg\<close> outside any \<open>try\<close>: when that allocation
  fails, \<open>std::bad_alloc\<close> leaves the handler.
\<close>

definition catch_all :: "runtime \<Rightarrow> host \<Rightarrow> exn \<Rightarrow> (exn + minijs_value) \<times> call list" where
  "catch_all rt hs e =
     (if \<not> alloc_ok hs alloc_message then (Inl (bad_alloc hs), [])
      else
        (let (p, cs) = allocUtf8WithMinijsMalloc rt (error_message e)
         in (Inr (minijs_value_zero\<lparr>nv_kind := MINIJS_STRING, nv_str := p\<rparr>), cs)))"

text \<open>
  \<open>trampoline\<close>. The runtime passes \<open>argc\<close> values at \<open>argv\<close>: the list of them. \<open>userdata\<close>
  is the Binding it points to, \<open>None\<close> for \<open>nullptr\<close>. The result is the record returned,
  or the exception that leaves the trampoline, and the calls made.
\<close>

definition trampoline ::
  "runtime \<Rightarrow> host \<Rightarrow> minijs_value list \<Rightarrow> minijs_value option \<Rightarrow> Binding option \<Rightarrow>
   (exn + minijs_value) \<times> call list" where
  "trampoline rt hs argv thisVal userdata =
     (case userdata of
        None \<Rightarrow> (Inr (minijs_value_zero\<lparr>nv_kind := MINIJS_NULL\<rparr>), [])
      | Some b \<Rightarrow>
          if engine b = 0 then (Inr (minijs_value_zero\<lparr>nv_kind := MINIJS_NULL\<rparr>), [])
          else
            (case try_block rt hs argv thisVal b of
               (Inr out, cs) \<Rightarrow> (Inr out, cs)
             | (Inl e, cs) \<Rightarrow> (let (r, cs') = catch_all rt hs e in (r, cs @ cs'))))"

section \<open>The typed views\<close>

text \<open>Each view has the one member \<open>_v\<close>.\<close>

record Object =
  Object_v :: Value

record Array =
  Array_v :: Value

record Function =
  Function_v :: Value

record Class =
  Class_v :: Value

text \<open>
  The constructors from a \<open>Value\<close>. The value is moved into \<open>_v\<close>; when the kind does not
  match, the constructor throws and \<open>_v\<close>, already constructed, is destroyed.
\<close>

definition Object_ctor :: "Value \<Rightarrow> (exn + Object) \<times> call list" where
  "Object_ctor v =
     (if v_kind v \<noteq> Kind_Object
      then (Inl (runtime_error ''Object: Value is not an object''), Value_dtor v)
      else (Inr \<lparr>Object_v = v\<rparr>, []))"

definition Array_ctor :: "Value \<Rightarrow> (exn + Array) \<times> call list" where
  "Array_ctor v =
     (if v_kind v \<noteq> Kind_Array
      then (Inl (runtime_error ''Array: Value is not an array''), Value_dtor v)
      else (Inr \<lparr>Array_v = v\<rparr>, []))"

definition Function_ctor :: "Value \<Rightarrow> (exn + Function) \<times> call list" where
  "Function_ctor v =
     (if v_kind v \<noteq> Kind_Function
      then (Inl (runtime_error ''Function: Value is not a function''), Value_dtor v)
      else (Inr \<lparr>Function_v = v\<rparr>, []))"

definition Class_ctor :: "Value \<Rightarrow> (exn + Class) \<times> call list" where
  "Class_ctor v =
     (if v_kind v \<noteq> Kind_Class
      then (Inl (runtime_error ''Class: Value is not a class''), Value_dtor v)
      else (Inr \<lparr>Class_v = v\<rparr>, []))"

text \<open>The default constructors: a view of \<open>Value::Null()\<close>.\<close>

definition Object_default :: Object where
  "Object_default = \<lparr>Object_v = Value_Null\<rparr>"

definition Array_default :: Array where
  "Array_default = \<lparr>Array_v = Value_Null\<rparr>"

definition Function_default :: Function where
  "Function_default = \<lparr>Function_v = Value_Null\<rparr>"

definition Class_default :: Class where
  "Class_default = \<lparr>Class_v = Value_Null\<rparr>"

definition Object_handle :: "Object \<Rightarrow> ptr" where
  "Object_handle ob = v_h (Object_v ob)"

definition Array_handle :: "Array \<Rightarrow> ptr" where
  "Array_handle ar = v_h (Array_v ar)"

definition Function_handle :: "Function \<Rightarrow> ptr" where
  "Function_handle fn = v_h (Function_v fn)"

definition Class_handle :: "Class \<Rightarrow> ptr" where
  "Class_handle cl = v_h (Class_v cl)"

subsection \<open>class Object\<close>

definition Object_has :: "runtime \<Rightarrow> Object \<Rightarrow> string \<Rightarrow> bool \<times> call list" where
  "Object_has rt ob key =
     (if Object_handle ob = 0 then (False, [])
      else (object_has_result rt (Object_handle ob) (c_str key) \<noteq> 0,
            [minijs_object_has (Object_handle ob) (c_str key)]))"

text \<open>
  The end of both \<open>get\<close>s: the record the runtime wrote is converted without a retain,
  and a string in it is freed.
\<close>

definition take_result :: "minijs_value \<Rightarrow> Value \<times> call list" where
  "take_result out =
     (let (v, cs) = fromNative out False
      in (v, cs @ (if nv_kind out = Kind_String
                   then (case nv_str out of None \<Rightarrow> [] | Some p \<Rightarrow> [minijs_free p])
                   else [])))"

definition Object_get :: "runtime \<Rightarrow> Object \<Rightarrow> string \<Rightarrow> Value \<times> call list" where
  "Object_get rt ob key =
     (if Object_handle ob = 0 then (Value_Null, [])
      else (let (v, cs) = take_result (object_get_result rt (Object_handle ob) (c_str key))
            in (v, minijs_object_get (Object_handle ob) (c_str key) # cs)))"

definition Object_set :: "Object \<Rightarrow> string \<Rightarrow> Value \<Rightarrow> (exn + unit) \<times> call list" where
  "Object_set ob key v =
     (if Object_handle ob = 0 then (Inl (runtime_error ''Object::set on null handle''), [])
      else (let (nv, tmp) = valueToNativeArg v
            in (Inr (), minijs_object_set (Object_handle ob) (c_str key) nv # free_tmp tmp)))"

subsection \<open>The parser of \<open>Object::keys\<close>\<close>

text \<open>
  The parser walks the string with an index that only grows; here it works on the
  rest of the string from the index on.
\<close>

definition is_ws :: "char \<Rightarrow> bool" where
  "is_ws c \<longleftrightarrow> c = CHR '' '' \<or> c = CHR 0x09 \<or> c = CHR 0x0D \<or> c = CHR 0x0A"

definition skipws :: "string \<Rightarrow> string" where
  "skipws s = dropWhile is_ws s"

text \<open>The \<open>switch\<close> on the character after a backslash.\<close>

definition unescape :: "char \<Rightarrow> char" where
  "unescape e =
     (if e = CHR 0x5C then CHR 0x5C
      else if e = CHR 0x22 then CHR 0x22
      else if e = CHR ''n'' then CHR 0x0A
      else if e = CHR ''r'' then CHR 0x0D
      else if e = CHR ''t'' then CHR 0x09
      else e)"

text \<open>
  The inner loop, after the opening quote: the key read, and the rest of the string
  after it. A backslash that is the last character of the string is kept as it is.
\<close>

fun read_key :: "string \<Rightarrow> string \<Rightarrow> string \<times> string" where
  "read_key cur [] = (cur, [])"
| "read_key cur [c] = (if c = CHR 0x22 then (cur, []) else (cur @ [c], []))"
| "read_key cur (c # e # s) =
     (if c = CHR 0x22 then (cur, e # s)
      else if c = CHR 0x5C then read_key (cur @ [unescape e]) s
      else read_key (cur @ [c]) (e # s))"

lemma read_key_length: "length (snd (read_key cur s)) \<le> length s"
  by (induction cur s rule: read_key.induct) auto

lemma skipws_length: "length (skipws s) \<le> length s"
  by (simp add: skipws_def length_dropWhile_le)

text \<open>The outer loop, \<open>while (i < s.size())\<close>.\<close>

function keys_loop :: "string list \<Rightarrow> string \<Rightarrow> string list" where
  "keys_loop res s =
     (if s = [] then res
      else
        (let s1 = skipws s in
         if s1 \<noteq> [] \<and> hd s1 = CHR '']'' then res
         else if s1 = [] \<or> hd s1 \<noteq> CHR 0x22 then res
         else
           (let (cur, s2) = read_key [] (tl s1);
                res' = res @ [cur];
                s3 = skipws s2
            in if s3 \<noteq> [] \<and> hd s3 = CHR '','' then keys_loop res' (tl s3)
               else
                 (let s4 = skipws s3
                  in if s4 \<noteq> [] \<and> hd s4 = CHR '']'' then res'
                     else keys_loop res' s4))))"
  by pat_completeness auto

lemma keys_loop_measure:
  assumes "s1 = skipws s" and "s1 \<noteq> []" and "(cur, s2) = read_key [] (tl s1)"
  shows "length (skipws s2) < length s"
proof -
  have "length (skipws s2) \<le> length s2"
    by (rule skipws_length)
  also have "\<dots> \<le> length (tl s1)"
    using assms(3) read_key_length [of "[]" "tl s1"] by (metis snd_conv)
  also have "\<dots> < length s1"
    using assms(2) by (cases s1) simp_all
  also have "\<dots> \<le> length s"
    unfolding assms(1) by (rule skipws_length)
  finally show ?thesis .
qed

termination keys_loop
proof (relation "measure (\<lambda>(res, s). length s)")
  show "wf (measure (\<lambda>(res, s). length s))"
    by simp
next
  fix res :: "string list" and s s1 x cur s2 res' s3
  assume "s \<noteq> []" "s1 = skipws s" "\<not> (s1 \<noteq> [] \<and> hd s1 = CHR '']'')"
    "\<not> (s1 = [] \<or> hd s1 \<noteq> CHR 0x22)" "x = read_key [] (tl s1)" "(cur, s2) = x"
    "res' = res @ [cur]" "s3 = skipws s2" "s3 \<noteq> [] \<and> hd s3 = CHR '',''"
  then have "length s3 < length s"
    using keys_loop_measure [of s1 s cur s2] by simp
  moreover have "length (tl s3) \<le> length s3"
    by simp
  ultimately show "((res', tl s3), res, s) \<in> measure (\<lambda>(res, s). length s)"
    by simp
next
  fix res :: "string list" and s s1 x cur s2 res' s3 s4
  assume "s \<noteq> []" "s1 = skipws s" "\<not> (s1 \<noteq> [] \<and> hd s1 = CHR '']'')"
    "\<not> (s1 = [] \<or> hd s1 \<noteq> CHR 0x22)" "x = read_key [] (tl s1)" "(cur, s2) = x"
    "res' = res @ [cur]" "s3 = skipws s2" "\<not> (s3 \<noteq> [] \<and> hd s3 = CHR '','')"
    "s4 = skipws s3" "\<not> (s4 \<noteq> [] \<and> hd s4 = CHR '']'')"
  then have "length s3 < length s"
    using keys_loop_measure [of s1 s cur s2] by simp
  moreover have "length s4 \<le> length s3"
    using \<open>s4 = skipws s3\<close> skipws_length by simp
  ultimately show "((res', s4), res, s) \<in> measure (\<lambda>(res, s). length s)"
    by simp
qed

declare keys_loop.simps [simp del]

text \<open>The parser from the start of the string.\<close>

definition parse_keys :: "string \<Rightarrow> string list" where
  "parse_keys s =
     (let s0 = skipws s in
      if s0 = [] \<or> hd s0 \<noteq> CHR ''['' then []
      else keys_loop [] (skipws (tl s0)))"

text \<open>\<open>Object::keys\<close>: the keys, and the calls made.\<close>

definition Object_keys :: "runtime \<Rightarrow> Object \<Rightarrow> string list \<times> call list" where
  "Object_keys rt ob =
     (if Object_handle ob = 0 then ([], [])
      else
        (case object_keys_result rt (Object_handle ob) of
           None \<Rightarrow> ([], [minijs_object_keys (Object_handle ob)])
         | Some json \<Rightarrow>
             (parse_keys json, [minijs_object_keys (Object_handle ob), minijs_free json])))"

subsection \<open>class Array\<close>

definition Array_length :: "runtime \<Rightarrow> Array \<Rightarrow> int32 \<times> call list" where
  "Array_length rt ar =
     (if Array_handle ar = 0 then (0, [])
      else (array_length_result rt (Array_handle ar), [minijs_array_length (Array_handle ar)]))"

definition Array_get :: "runtime \<Rightarrow> Array \<Rightarrow> int32 \<Rightarrow> Value \<times> call list" where
  "Array_get rt ar index =
     (if Array_handle ar = 0 then (Value_Null, [])
      else (let (v, cs) = take_result (array_get_result rt (Array_handle ar) index)
            in (v, minijs_array_get (Array_handle ar) index # cs)))"

definition Array_set :: "Array \<Rightarrow> int32 \<Rightarrow> Value \<Rightarrow> (exn + unit) \<times> call list" where
  "Array_set ar index v =
     (if Array_handle ar = 0 then (Inl (runtime_error ''Array::set on null handle''), [])
      else (let (nv, tmp) = valueToNativeArg v
            in (Inr (), minijs_array_set (Array_handle ar) index nv # free_tmp tmp)))"

definition Array_push :: "Array \<Rightarrow> Value \<Rightarrow> (exn + unit) \<times> call list" where
  "Array_push ar v =
     (if Array_handle ar = 0 then (Inl (runtime_error ''Array::push on null handle''), [])
      else (let (nv, tmp) = valueToNativeArg v
            in (Inr (), minijs_array_push (Array_handle ar) nv # free_tmp tmp)))"

subsection \<open>class Function and class Class\<close>

text \<open>\<open>Function::detachHandle\<close>: the handle, and the view afterwards.\<close>

definition Function_detachHandle :: "Function \<Rightarrow> ptr \<times> Function" where
  "Function_detachHandle fn = (let (h, v) = detachHandle (Function_v fn) in (h, \<lparr>Function_v = v\<rparr>))"

text \<open>
  \<open>Class::addMethod\<close>: whether it threw, the function view of the caller afterwards,
  and the calls made.
\<close>

definition addMethod :: "Class \<Rightarrow> string \<Rightarrow> Function \<Rightarrow> (exn + unit) \<times> Function \<times> call list" where
  "addMethod cl methodName fn =
     (if Class_handle cl = 0
      then (Inl (runtime_error ''Class::addMethod on null handle''), fn, [])
      else (let (h, fn') = Function_detachHandle fn
            in (Inr (), fn', [minijs_class_add_method (Class_handle cl) (c_str methodName) h])))"

text \<open>\<open>Class::toValueMove\<close>: the value moved out, and the view afterwards.\<close>

definition toValueMove :: "Class \<Rightarrow> Value \<times> Class" where
  "toValueMove cl = (let (v, v') = Value_move (Class_v cl) in (v, \<lparr>Class_v = v'\<rparr>))"

section \<open>Wrappers as objects\<close>

text \<open>
  The wrappers of a program, each at its own place: \<open>None\<close> once destroyed. A program
  copies, moves, assigns and destroys them. A new wrapper takes the next free place. An
  operation on a wrapper that does not exist or was destroyed has no meaning in C++:
  \<open>step\<close> is \<open>None\<close> there.
\<close>

type_synonym store = "Value option list"

datatype op =
    CopyConstruct nat
  | MoveConstruct nat
  | CopyAssign nat nat
  | MoveAssign nat nat
  | Destroy nat

definition wrapper_at :: "store \<Rightarrow> nat \<Rightarrow> Value option" where
  "wrapper_at st i = (if i < length st then st ! i else None)"

text \<open>
  \<open>CopyAssign dst src\<close> is \<open>dst = src\<close> and \<open>MoveAssign dst src\<close> is
  \<open>dst = std::move(src)\<close>; both return at once when \<open>this == &o\<close>.
\<close>

fun step :: "op \<Rightarrow> store \<Rightarrow> (store \<times> call list) option" where
  "step (CopyConstruct src) st =
     (case wrapper_at st src of
        None \<Rightarrow> None
      | Some other \<Rightarrow> (let (v, cs) = Value_copy other in Some (st @ [Some v], cs)))"
| "step (MoveConstruct src) st =
     (case wrapper_at st src of
        None \<Rightarrow> None
      | Some other \<Rightarrow>
          (let (v, other') = Value_move other in Some (st[src := Some other'] @ [Some v], [])))"
| "step (CopyAssign dst src) st =
     (case wrapper_at st dst of
        None \<Rightarrow> None
      | Some this \<Rightarrow>
          (case wrapper_at st src of
             None \<Rightarrow> None
           | Some other \<Rightarrow>
               if dst = src then Some (st, [])
               else (let (v, cs) = Value_copy_assign this other
                     in Some (st[dst := Some v], cs))))"
| "step (MoveAssign dst src) st =
     (case wrapper_at st dst of
        None \<Rightarrow> None
      | Some this \<Rightarrow>
          (case wrapper_at st src of
             None \<Rightarrow> None
           | Some other \<Rightarrow>
               if dst = src then Some (st, [])
               else (let (v, other', cs) = Value_move_assign this other
                     in Some (st[dst := Some v, src := Some other'], cs))))"
| "step (Destroy i) st =
     (case wrapper_at st i of
        None \<Rightarrow> None
      | Some v \<Rightarrow> Some (st[i := None], Value_dtor v))"

fun run :: "op list \<Rightarrow> store \<Rightarrow> (store \<times> call list) option" where
  "run [] st = Some (st, [])"
| "run (p # ps) st =
     (case step p st of
        None \<Rightarrow> None
      | Some (st1, cs1) \<Rightarrow>
          (case run ps st1 of
             None \<Rightarrow> None
           | Some (st2, cs2) \<Rightarrow> Some (st2, cs1 @ cs2)))"

text \<open>
  A wrapper owns a reference to \<open>h\<close> when it is of a handle kind and holds \<open>h\<close>: these
  are the wrappers whose destruction releases \<open>h\<close>.
\<close>

definition owns :: "ptr \<Rightarrow> Value option \<Rightarrow> bool" where
  "owns h w = (case w of None \<Rightarrow> False | Some v \<Rightarrow> isHandleKind v \<and> v_h v = h)"

definition owners :: "ptr \<Rightarrow> store \<Rightarrow> nat" where
  "owners h st = length (filter (owns h) st)"

section \<open>Concrete values, closures and programs\<close>

definition unknown_kind_value :: minijs_value where
  "unknown_kind_value =
     \<lparr>nv_kind = 42, nv_num = double_1, nv_boolean = 1, nv_str = Some ''x'', nv_handle = 7\<rparr>"

text \<open>A runtime with memory, and one whose \<open>minijs_malloc\<close> returns \<open>nullptr\<close>.\<close>

definition runtime_1 :: runtime where
  "runtime_1 =
     \<lparr>malloc_ok = (\<lambda>n. True), array_length_result = (\<lambda>h. 0),
      array_get_result = (\<lambda>h i. minijs_value_zero), object_has_result = (\<lambda>h k. 0),
      object_get_result = (\<lambda>h k. minijs_value_zero), object_keys_result = (\<lambda>h. None)\<rparr>"

definition runtime_no_memory :: runtime where
  "runtime_no_memory = runtime_1\<lparr>malloc_ok := (\<lambda>n. False)\<rparr>"

text \<open>
  A host with memory, and one that cannot allocate the message of a handler; \<open>what()\<close>
  of \<open>std::bad_alloc\<close> as libstdc++ and libc++ have it.
\<close>

definition host_1 :: host where
  "host_1 = \<lparr>alloc_ok = (\<lambda>a. True), bad_alloc_what = ''std::bad_alloc''\<rparr>"

definition host_no_message :: host where
  "host_no_message = host_1\<lparr>alloc_ok := (\<lambda>a. a \<noteq> alloc_message)\<rparr>"

definition array_arg :: minijs_value where
  "array_arg = minijs_value_zero\<lparr>nv_kind := MINIJS_ARRAY, nv_handle := 7\<rparr>"

text \<open>A closure that throws \<open>std::runtime_error("boom")\<close>.\<close>

definition throwing_cb :: Callback where
  "throwing_cb args thisVal = (Inl (std_exception ''boom''), [])"

definition unbound :: Binding where
  "unbound = \<lparr>engine = 0, cb = throwing_cb\<rparr>"

text \<open>Wrappers of the handle \<open>7\<close>, as the factories of the Engine make them.\<close>

definition object_7 :: Value where
  "object_7 = fst (Value_Handle Kind_Object 7 False)"

definition function_7 :: Value where
  "function_7 = fst (Value_Handle Kind_Function 7 False)"

definition engine_1 :: Engine where
  "engine_1 = \<lparr>e_it = 1, e_bindings = []\<rparr>"

definition array_7 :: Value where
  "array_7 = fst (Value_Handle Kind_Array 7 False)"

text \<open>\<open>Value::Handle(Kind::Array, nullptr, false)\<close>: of a handle kind, holding no handle.\<close>

definition array_null :: Value where
  "array_null = fst (Value_Handle Kind_Array 0 False)"

text \<open>\<open>Value::Handle(Kind::Object, nullptr, false)\<close>.\<close>

definition object_null :: Value where
  "object_null = fst (Value_Handle Kind_Object 0 False)"

definition class_9 :: Class where
  "class_9 = \<lparr>Class_v = fst (Value_Handle Kind_Class 9 False)\<rparr>"

text \<open>
  A registered closure that throws, one that throws an object that is no
  \<open>std::exception\<close> (\<open>throw 42\<close>), and one that returns a function handle.
\<close>

definition throwing_other_cb :: Callback where
  "throwing_other_cb args thisVal = (Inl other_exception, [])"

definition thrower_other :: Binding where
  "thrower_other = \<lparr>engine = 1, cb = throwing_other_cb\<rparr>"

definition thrower :: Binding where
  "thrower = \<lparr>engine = 1, cb = throwing_cb\<rparr>"

definition returning_cb :: Callback where
  "returning_cb args thisVal = (Inr function_7, [])"

definition returner :: Binding where
  "returner = \<lparr>engine = 1, cb = returning_cb\<rparr>"

definition object_9 :: Value where
  "object_9 = fst (Value_Handle Kind_Object 9 False)"

text \<open>Two programs over one wrapper of the handle \<open>7\<close>.\<close>

definition program_1 :: "op list" where
  "program_1 =
     [CopyConstruct 0, MoveConstruct 1, CopyAssign 0 2, MoveAssign 1 0, Destroy 0, Destroy 1,
      Destroy 2]"

definition program_2 :: "op list" where
  "program_2 = [CopyConstruct 0, Destroy 0, Destroy 1]"

text \<open>
  The text \<open>["a","b\n","c\""]\<close> (with a backslash before \<open>n\<close> and before the quote of the
  third key), a text whose last string and array are not closed, and a text without the
  opening bracket.
\<close>

definition keys_text_1 :: string where
  "keys_text_1 =
     [CHR ''['', CHR 0x22, CHR ''a'', CHR 0x22, CHR '','',
      CHR 0x22, CHR ''b'', CHR 0x5C, CHR ''n'', CHR 0x22, CHR '','',
      CHR 0x22, CHR ''c'', CHR 0x5C, CHR 0x22, CHR 0x22, CHR '']'']"

definition keys_text_2 :: string where
  "keys_text_2 = [CHR ''['', CHR 0x22, CHR ''a'', CHR 0x22, CHR '','', CHR 0x22, CHR ''b'']"

definition keys_text_3 :: string where
  "keys_text_3 = [CHR 0x22, CHR ''a'', CHR 0x22, CHR '']'']"

definition runtime_keys :: runtime where
  "runtime_keys = runtime_1\<lparr>object_keys_result := (\<lambda>h. Some keys_text_1)\<rparr>"

text \<open>
  Modelled from the spec: the writer of the keys text, \<open>minijs_object_keys\<close> of the runtime,
  which is not part of these sources. The spec and the comment in Api.h (\<open>["a","b"]\<close>)
  give the format: the keys between brackets, separated by commas, each between double
  quotes, with backslash, double quote, newline, carriage return and tab written as a
  backslash followed by a backslash, a double quote, \<open>n\<close>, \<open>r\<close> and \<open>t\<close>. These
  definitions serve only to state that the parser reads such a text back.
\<close>

definition spec_escape_char :: "char \<Rightarrow> string" where
  "spec_escape_char c =
     (if c = CHR 0x5C then [CHR 0x5C, CHR 0x5C]
      else if c = CHR 0x22 then [CHR 0x5C, CHR 0x22]
      else if c = CHR 0x0A then [CHR 0x5C, CHR ''n'']
      else if c = CHR 0x0D then [CHR 0x5C, CHR ''r'']
      else if c = CHR 0x09 then [CHR 0x5C, CHR ''t'']
      else [c])"

definition spec_quote_key :: "string \<Rightarrow> string" where
  "spec_quote_key k = CHR 0x22 # concat (map spec_escape_char k) @ [CHR 0x22]"

fun spec_join_keys :: "string list \<Rightarrow> string" where
  "spec_join_keys [] = []"
| "spec_join_keys [k] = spec_quote_key k"
| "spec_join_keys (k # k' # ks) = spec_quote_key k @ CHR '','' # spec_join_keys (k' # ks)"

definition spec_render_keys :: "string list \<Rightarrow> string" where
  "spec_render_keys ks = CHR ''['' # spec_join_keys ks @ [CHR '']'']"

section \<open>Properties\<close>

lemmas minijs_kind_defs =
  MINIJS_NULL_def MINIJS_NUMBER_def MINIJS_BOOL_def MINIJS_STRING_def MINIJS_ARRAY_def
  MINIJS_OBJECT_def MINIJS_FUNCTION_def MINIJS_CLASS_def MINIJS_TASK_def

lemmas Kind_defs =
  Kind_Null_def Kind_Number_def Kind_Bool_def Kind_String_def Kind_Array_def
  Kind_Object_def Kind_Function_def Kind_Class_def Kind_Task_def minijs_kind_defs

subsection \<open>Coercions\<close>

lemma double_zeros_not_nan: "\<not> double_isnan double_0" "\<not> double_isnan double_minus_0"
  by (simp_all add: double_isnan_def double_0_def double_minus_0_def)

lemma double_ne_0_iff: "double_ne d double_0 \<longleftrightarrow> \<not> double_iszero d"
  using double_zeros_not_nan by (auto simp: double_ne_def double_iszero_def)

text \<open>
  C8. \<open>toNumber(def)\<close> is the number of a Number value, \<open>1.0\<close> for Bool true, \<open>0.0\<close> for
  Bool false and \<open>def\<close> for every other kind; \<open>toBool(def)\<close> is the boolean of a Bool
  value, true exactly when the number is not a zero for a Number value (a NaN is not a
  zero, \<open>-0.0\<close> is one), and \<open>def\<close> for every other kind.
\<close>

theorem coercions:
  "(v_kind v = Kind_Number \<longrightarrow> toNumber v def = v_num v) \<and>
   (v_kind v = Kind_Bool \<and> v_b v \<longrightarrow> toNumber v def = double_1) \<and>
   (v_kind v = Kind_Bool \<and> \<not> v_b v \<longrightarrow> toNumber v def = double_0) \<and>
   (v_kind v \<noteq> Kind_Number \<and> v_kind v \<noteq> Kind_Bool \<longrightarrow> toNumber v def = def) \<and>
   (v_kind v = Kind_Bool \<longrightarrow> toBool v bdef = v_b v) \<and>
   (v_kind v = Kind_Number \<longrightarrow> toBool v bdef = (\<not> double_iszero (v_num v))) \<and>
   (v_kind v \<noteq> Kind_Bool \<and> v_kind v \<noteq> Kind_Number \<longrightarrow> toBool v bdef = bdef)"
proof -
  have distinct: "Kind_Number \<noteq> Kind_Bool"
    by (simp add: Kind_defs)
  show ?thesis
    using distinct by (simp add: toNumber_def toBool_def double_ne_0_iff)
qed

theorem coercions_witness:
  "toNumber (Value_Number double_1) double_0 = double_1 \<and>
   toNumber (Value_Bool True) double_0 = double_1 \<and>
   toNumber (Value_Bool False) double_1 = double_0 \<and>
   toNumber (Value_String ''7'') double_1 = double_1 \<and>
   toBool (Value_Bool True) False = True \<and>
   toBool (Value_Number double_1) False = True \<and>
   toBool (Value_Number double_minus_0) True = False \<and>
   toBool Value_Null True = True"
  using coercions [of "Value_Number double_1" double_0 False]
    coercions [of "Value_Bool True" double_0 False]
    coercions [of "Value_Bool False" double_1 False]
    coercions [of "Value_String ''7''" double_1 False]
    coercions [of "Value_Number double_minus_0" double_0 True]
    coercions [of "Value_Null" double_0 True]
  by (simp add: Value_Number_def Value_Bool_def Value_String_def Value_Null_def Kind_defs
      double_iszero_def double_1_def double_0_def double_minus_0_def)

subsection \<open>Conversion from the boundary record\<close>

text \<open>
  C10. For a boundary record whose kind is none of the nine kinds \<open>0\<close> to \<open>8\<close>,
  \<open>fromNative\<close> returns the Null value and makes no call, so nothing is retained;
  \<open>fromNative\<close> has a result for every \<open>int32_t\<close> kind and never throws.
\<close>

theorem fromNative_unknown_kind:
  assumes "sint (nv_kind nv) < 0 \<or> 8 < sint (nv_kind nv)"
  shows "fromNative nv retainHandle = (Value_Null, [])"
proof -
  have "nv_kind nv \<noteq> 0" "nv_kind nv \<noteq> 1" "nv_kind nv \<noteq> 2" "nv_kind nv \<noteq> 3" "nv_kind nv \<noteq> 4"
    "nv_kind nv \<noteq> 5" "nv_kind nv \<noteq> 6" "nv_kind nv \<noteq> 7" "nv_kind nv \<noteq> 8"
    using assms by auto
  then show ?thesis
    by (simp add: fromNative_def Kind_defs Let_def)
qed

theorem fromNative_unknown_kind_witness:
  "(sint (nv_kind unknown_kind_value) < 0 \<or> 8 < sint (nv_kind unknown_kind_value)) \<and>
   fromNative unknown_kind_value True = (Value_Null, [])"
proof -
  have h: "sint (nv_kind unknown_kind_value) < 0 \<or> 8 < sint (nv_kind unknown_kind_value)"
    by (simp add: unknown_kind_value_def)
  from fromNative_unknown_kind [OF h, of True] h show ?thesis
    by simp
qed

subsection \<open>The trampoline without a Binding\<close>

text \<open>
  C9. When the user-context pointer is null, or the Binding it points to has no engine,
  the trampoline returns the zero record, whose kind is Null, and makes no call: no
  argument is converted (a handle argument would be retained) and the closure is not
  invoked.
\<close>

theorem trampoline_without_binding:
  assumes "userdata = None \<or> (\<exists>b. userdata = Some b \<and> engine b = 0)"
  shows "trampoline rt hs argv thisVal userdata = (Inr minijs_value_zero, []) \<and>
         nv_kind minijs_value_zero = MINIJS_NULL"
  using assms
  by (auto simp: trampoline_def minijs_value_zero_def MINIJS_NULL_def)

theorem trampoline_without_binding_witness:
  "trampoline runtime_1 host_1 [array_arg] (Some array_arg) None =
     (Inr minijs_value_zero, []) \<and>
   engine unbound = 0 \<and>
   trampoline runtime_1 host_1 [array_arg] (Some array_arg) (Some unbound) =
     (Inr minijs_value_zero, [])"
  using trampoline_without_binding [of None runtime_1 host_1 "[array_arg]" "Some array_arg"]
    trampoline_without_binding [of "Some unbound" runtime_1 host_1 "[array_arg]"
      "Some array_arg"]
  by (simp add: unbound_def)

subsection \<open>The typed views\<close>

text \<open>
  C6. Constructing an Array, Object, Function or Class view from a value of another
  kind throws at once (and the wrapper moved into the view is destroyed); in
  particular an Array view of an Object value is never constructed.
\<close>

theorem view_kind_mismatch:
  "(v_kind v \<noteq> Kind_Array \<longrightarrow>
      Array_ctor v = (Inl (runtime_error ''Array: Value is not an array''), Value_dtor v)) \<and>
   (v_kind v \<noteq> Kind_Object \<longrightarrow>
      Object_ctor v = (Inl (runtime_error ''Object: Value is not an object''), Value_dtor v)) \<and>
   (v_kind v \<noteq> Kind_Function \<longrightarrow>
      Function_ctor v = (Inl (runtime_error ''Function: Value is not a function''), Value_dtor v)) \<and>
   (v_kind v \<noteq> Kind_Class \<longrightarrow>
      Class_ctor v = (Inl (runtime_error ''Class: Value is not a class''), Value_dtor v)) \<and>
   (v_kind v = Kind_Object \<longrightarrow> (\<forall>a. fst (Array_ctor v) \<noteq> Inr a))"
proof -
  have "Kind_Object \<noteq> Kind_Array"
    by (simp add: Kind_defs)
  then show ?thesis
    by (simp add: Array_ctor_def Object_ctor_def Function_ctor_def Class_ctor_def)
qed

theorem view_kind_mismatch_witness:
  "v_kind object_7 = Kind_Object \<and>
   Array_ctor object_7 =
     (Inl (runtime_error ''Array: Value is not an array''), [minijs_handle_release 7]) \<and>
   Function_ctor object_7 =
     (Inl (runtime_error ''Function: Value is not a function''), [minijs_handle_release 7]) \<and>
   Class_ctor object_7 =
     (Inl (runtime_error ''Class: Value is not a class''), [minijs_handle_release 7]) \<and>
   Object_ctor (Value_Number double_1) =
     (Inl (runtime_error ''Object: Value is not an object''), [])"
  using view_kind_mismatch [of object_7] view_kind_mismatch [of "Value_Number double_1"]
  by (simp add: object_7_def Value_Handle_def Value_Null_def Value_Number_def Value_dtor_def
      cleanup_def isHandleKind_def Kind_defs)

text \<open>
  C5. On a view that holds no handle, as a view of the Null value does, \<open>has\<close>, \<open>get\<close>,
  \<open>keys\<close>, \<open>length\<close> and \<open>get\<close> return false, Null, no key, 0 and Null and make no call
  into the runtime; \<open>set\<close>, \<open>set\<close>, \<open>push\<close> and \<open>addMethod\<close> throw at once, before any
  call.
\<close>

theorem null_view_operations:
  assumes "Object_handle ob = 0" and "Array_handle ar = 0" and "Class_handle cl = 0"
  shows "Object_has rt ob key = (False, []) \<and>
         Object_get rt ob key = (Value_Null, []) \<and>
         Object_keys rt ob = ([], []) \<and>
         Array_length rt ar = (0, []) \<and>
         Array_get rt ar index = (Value_Null, []) \<and>
         Object_set ob key v = (Inl (runtime_error ''Object::set on null handle''), []) \<and>
         Array_set ar index v = (Inl (runtime_error ''Array::set on null handle''), []) \<and>
         Array_push ar v = (Inl (runtime_error ''Array::push on null handle''), []) \<and>
         addMethod cl methodName fn =
           (Inl (runtime_error ''Class::addMethod on null handle''), fn, [])"
  using assms
  by (simp add: Object_has_def Object_get_def Object_keys_def Array_length_def Array_get_def
      Object_set_def Array_set_def Array_push_def addMethod_def)

theorem null_view_operations_witness:
  "Object_v Object_default = Value_Null \<and> Array_v Array_default = Value_Null \<and>
   Class_v Class_default = Value_Null \<and>
   Object_has runtime_1 Object_default ''x'' = (False, []) \<and>
   Object_get runtime_1 Object_default ''x'' = (Value_Null, []) \<and>
   Object_keys runtime_1 Object_default = ([], []) \<and>
   Array_length runtime_1 Array_default = (0, []) \<and>
   Array_get runtime_1 Array_default 0 = (Value_Null, []) \<and>
   Object_set Object_default ''x'' (Value_Number double_1) =
     (Inl (runtime_error ''Object::set on null handle''), []) \<and>
   Array_set Array_default 0 (Value_Number double_1) =
     (Inl (runtime_error ''Array::set on null handle''), []) \<and>
   Array_push Array_default (Value_Number double_1) =
     (Inl (runtime_error ''Array::push on null handle''), []) \<and>
   addMethod Class_default ''inc'' \<lparr>Function_v = function_7\<rparr> =
     (Inl (runtime_error ''Class::addMethod on null handle''), \<lparr>Function_v = function_7\<rparr>, [])"
proof -
  have h: "Object_handle Object_default = 0" "Array_handle Array_default = 0"
    "Class_handle Class_default = 0"
    by (simp_all add: Object_handle_def Array_handle_def Class_handle_def Object_default_def
        Array_default_def Class_default_def Value_Null_def)
  from null_view_operations [OF h, of runtime_1 "''x''" 0 "Value_Number double_1" "''inc''"
      "\<lparr>Function_v = function_7\<rparr>"]
  show ?thesis
    by (simp add: Object_default_def Array_default_def Class_default_def)
qed

subsection \<open>Handles in declarations and conversions\<close>

lemma handle_kind_cases:
  assumes "isHandleKind v"
  shows "v_kind v \<noteq> Kind_Null" "v_kind v \<noteq> Kind_Number" "v_kind v \<noteq> Kind_Bool"
    "v_kind v \<noteq> Kind_String"
  using assms by (auto simp: isHandleKind_def Kind_defs)

lemma valueToNativeArg_handle:
  assumes "isHandleKind v"
  shows "valueToNativeArg v =
           (\<lparr>nv_kind = v_kind v, nv_num = double_0, nv_boolean = 0, nv_str = None,
             nv_handle = v_h v\<rparr>, None)"
  using assms handle_kind_cases [OF assms]
  by (simp add: valueToNativeArg_def isHandleKind_def Let_def)

lemma Value_dtor_owner:
  assumes "isHandleKind v" and "v_h v \<noteq> 0"
  shows "Value_dtor v = [minijs_handle_release (v_h v)]"
  using assms by (simp add: Value_dtor_def cleanup_def)

lemma Value_dtor_Null: "Value_dtor Value_Null = []"
  by (simp add: Value_dtor_def cleanup_def Value_Null_def)

text \<open>
  C7, as the code has it. For every value of a handle kind, \<open>declareCopy\<close> reads the
  value through a \<open>const\<close> reference, so the caller's wrapper keeps its kind and its
  handle. When the value holds a handle (the handle is not null), \<open>declareCopy\<close> retains
  the handle once and then calls \<open>minijs_global_declare\<close> with it, and makes no other
  call; the later destruction of the caller's wrapper releases the handle once. When
  the handle is null, the only call is \<open>minijs_global_declare\<close>: nothing is retained,
  and the destruction of the wrapper releases nothing.
\<close>

theorem declareCopy_retains_once:
  assumes "isHandleKind v"
  shows "(v_h v \<noteq> 0 \<longrightarrow>
            declareCopy e name v =
              [minijs_handle_retain (v_h v),
               minijs_global_declare (e_it e) (c_str name)
                 \<lparr>nv_kind = v_kind v, nv_num = double_0, nv_boolean = 0, nv_str = None,
                  nv_handle = v_h v\<rparr>] \<and>
            retains (v_h v) (declareCopy e name v) = 1 \<and>
            releases (v_h v) (declareCopy e name v) = 0 \<and>
            Value_dtor v = [minijs_handle_release (v_h v)]) \<and>
         (v_h v = 0 \<longrightarrow>
            declareCopy e name v =
              [minijs_global_declare (e_it e) (c_str name)
                 \<lparr>nv_kind = v_kind v, nv_num = double_0, nv_boolean = 0, nv_str = None,
                  nv_handle = 0\<rparr>] \<and>
            Value_dtor v = [])"
proof (cases "v_h v = 0")
  case True
  have "declareCopy e name v =
          [minijs_global_declare (e_it e) (c_str name)
             \<lparr>nv_kind = v_kind v, nv_num = double_0, nv_boolean = 0, nv_str = None,
              nv_handle = 0\<rparr>]"
    using assms True by (simp add: declareCopy_def valueToNativeArg_handle free_tmp_def)
  moreover have "Value_dtor v = []"
    using True by (simp add: Value_dtor_def cleanup_def)
  ultimately show ?thesis
    using True by simp
next
  case False
  have calls: "declareCopy e name v =
           [minijs_handle_retain (v_h v),
            minijs_global_declare (e_it e) (c_str name)
              \<lparr>nv_kind = v_kind v, nv_num = double_0, nv_boolean = 0, nv_str = None,
               nv_handle = v_h v\<rparr>]"
    using assms False by (simp add: declareCopy_def valueToNativeArg_handle free_tmp_def)
  show ?thesis
    unfolding calls using False Value_dtor_owner [OF assms False]
    by (simp add: retains_def releases_def)
qed

theorem declareCopy_retains_once_witness:
  "isHandleKind array_7 \<and> v_h array_7 = 7 \<and>
   declareCopy engine_1 ''xs'' array_7 =
     [minijs_handle_retain 7,
      minijs_global_declare 1 ''xs''
        \<lparr>nv_kind = MINIJS_ARRAY, nv_num = double_0, nv_boolean = 0, nv_str = None,
         nv_handle = 7\<rparr>] \<and>
   Value_dtor array_7 = [minijs_handle_release 7] \<and>
   isHandleKind object_null \<and> v_h object_null = 0 \<and>
   declareCopy engine_1 ''ob'' object_null =
     [minijs_global_declare 1 ''ob''
        \<lparr>nv_kind = MINIJS_OBJECT, nv_num = double_0, nv_boolean = 0, nv_str = None,
         nv_handle = 0\<rparr>] \<and>
   Value_dtor object_null = []"
proof -
  have h: "isHandleKind array_7" "isHandleKind object_null"
    by (simp_all add: array_7_def object_null_def Value_Handle_def isHandleKind_def
        Value_Null_def)
  have p: "v_h array_7 = 7" "v_h object_null = 0"
    by (simp_all add: array_7_def object_null_def Value_Handle_def)
  from declareCopy_retains_once [OF h(1), of engine_1 "''xs''"]
    declareCopy_retains_once [OF h(2), of engine_1 "''ob''"] h p
  show ?thesis
    by (simp add: array_7_def object_null_def Value_Handle_def Value_Null_def engine_1_def
        c_str_def Kind_Array_def Kind_Object_def)
qed

text \<open>
  C7 as stated, for every value of a handle kind, fails for one that holds no handle:
  \<open>declareCopy\<close> guards the retain with \<open>v.handle()\<close> and retains nothing.
\<close>

theorem declareCopy_null_handle_counterexample:
  "isHandleKind array_null \<and>
   declareCopy engine_1 ''xs'' array_null =
     [minijs_global_declare 1 ''xs''
        \<lparr>nv_kind = MINIJS_ARRAY, nv_num = double_0, nv_boolean = 0, nv_str = None,
         nv_handle = 0\<rparr>] \<and>
   retains (v_h array_null) (declareCopy engine_1 ''xs'' array_null) = 0"
proof -
  have h: "isHandleKind array_null"
    by (simp add: array_null_def Value_Handle_def isHandleKind_def Value_Null_def)
  have "declareCopy engine_1 ''xs'' array_null =
     [minijs_global_declare 1 ''xs''
        \<lparr>nv_kind = MINIJS_ARRAY, nv_num = double_0, nv_boolean = 0, nv_str = None,
         nv_handle = 0\<rparr>]"
    using h
    by (simp add: declareCopy_def valueToNativeArg_handle free_tmp_def array_null_def
        Value_Handle_def Value_Null_def engine_1_def c_str_def Kind_Array_def)
  with h show ?thesis
    by (simp add: retains_def)
qed

subsection \<open>The trampoline and a closure that throws\<close>

lemma c_str_error_message:
  "c_str (error_message e) =
     ''Error: '' @ (case e of std_exception what \<Rightarrow> c_str what
                    | other_exception \<Rightarrow> ''unknown native exception'')"
  by (cases e) (simp_all add: error_message_def c_str_def)

lemma catch_all_record:
  assumes "alloc_ok hs alloc_message"
  shows "catch_all rt hs e =
           (Inr (minijs_value_zero
              \<lparr>nv_kind := MINIJS_STRING,
               nv_str :=
                 (if malloc_ok rt (length (error_message e) + 1)
                  then Some (''Error: '' @
                         (case e of std_exception what \<Rightarrow> c_str what
                          | other_exception \<Rightarrow> ''unknown native exception''))
                  else None)\<rparr>),
            [minijs_malloc (length (error_message e) + 1)])"
proof -
  have "catch_all rt hs e =
          (Inr (minijs_value_zero
             \<lparr>nv_kind := MINIJS_STRING,
              nv_str := (if malloc_ok rt (length (error_message e) + 1)
                 then Some (c_str (error_message e)) else None)\<rparr>),
           [minijs_malloc (length (error_message e) + 1)])"
    using assms by (simp add: catch_all_def allocUtf8WithMinijsMalloc_def)
  then show ?thesis
    by (simp only: c_str_error_message)
qed

lemma try_block_throws:
  assumes "prepare hs argv thisVal = (True, args, tv, cs_in)"
    and "cb b args tv = (Inl e, cs_cb)"
  shows "try_block rt hs argv thisVal b =
           (Inl e, cs_in @ cs_cb @ Value_dtor tv @ concat (map Value_dtor args))"
  using assms by (simp add: try_block_def)

lemma trampoline_returns_record:
  assumes "alloc_ok hs alloc_message"
  shows "\<exists>out cs. trampoline rt hs argv thisVal userdata = (Inr out, cs)"
proof (cases userdata)
  case None
  then show ?thesis by (simp add: trampoline_def)
next
  case (Some b)
  show ?thesis
  proof (cases "engine b = 0")
    case True
    with Some show ?thesis by (simp add: trampoline_def)
  next
    case False
    obtain r cs where t: "try_block rt hs argv thisVal b = (r, cs)"
      by (cases "try_block rt hs argv thisVal b")
    show ?thesis
    proof (cases r)
      case (Inl e)
      with Some False t catch_all_record [OF assms, of rt e] show ?thesis
        by (simp add: trampoline_def)
    next
      case (Inr out)
      with Some False t show ?thesis
        by (simp add: trampoline_def)
    qed
  qed
qed

text \<open>
  C1, as the code has it. For every Binding with an engine whose closure throws while
  the trampoline executes it, on a host that can allocate the message of the handler
  (\<open>std::string msg\<close>): the trampoline returns a record of kind String, after destroying
  the converted receiver and arguments. When \<open>minijs_malloc\<close> returns memory, the text
  of the record is \<open>Error: \<close> followed by \<open>what()\<close> of a \<open>std::exception\<close>, or by
  \<open>unknown native exception\<close> for anything else thrown; when it returns \<open>nullptr\<close>,
  the string pointer of the record is null. On such a host no exception leaves the
  trampoline, whatever the arguments, the receiver and the user context are.
\<close>

theorem trampoline_catches:
  assumes "engine b \<noteq> 0"
    and "prepare hs argv thisVal = (True, args, tv, cs_in)"
    and "cb b args tv = (Inl e, cs_cb)"
    and "alloc_ok hs alloc_message"
  shows "trampoline rt hs argv thisVal (Some b) =
           (Inr (minijs_value_zero
              \<lparr>nv_kind := MINIJS_STRING,
               nv_str :=
                 (if malloc_ok rt (length (error_message e) + 1)
                  then Some (''Error: '' @
                         (case e of std_exception what \<Rightarrow> c_str what
                          | other_exception \<Rightarrow> ''unknown native exception''))
                  else None)\<rparr>),
            cs_in @ cs_cb @ Value_dtor tv @ concat (map Value_dtor args) @
            [minijs_malloc (length (error_message e) + 1)]) \<and>
         (\<forall>argv' thisVal' userdata'.
            \<exists>out cs. trampoline rt hs argv' thisVal' userdata' = (Inr out, cs))"
proof -
  have "trampoline rt hs argv thisVal (Some b) =
          (fst (catch_all rt hs e),
           (cs_in @ cs_cb @ Value_dtor tv @ concat (map Value_dtor args)) @
           snd (catch_all rt hs e))"
    using assms(1) try_block_throws [OF assms(2,3), of rt]
    by (simp add: trampoline_def split: prod.splits)
  then show ?thesis
    using trampoline_returns_record [OF assms(4), of rt]
    by (simp add: catch_all_record [OF assms(4)])
qed

theorem trampoline_catches_witness:
  "engine thrower \<noteq> 0 \<and>
   prepare host_1 [array_arg] None = (True, [array_7], Value_Null, [minijs_handle_retain 7]) \<and>
   cb thrower [array_7] Value_Null = (Inl (std_exception ''boom''), []) \<and>
   alloc_ok host_1 alloc_message \<and>
   trampoline runtime_1 host_1 [array_arg] None (Some thrower) =
     (Inr (minijs_value_zero\<lparr>nv_kind := MINIJS_STRING, nv_str := Some ''Error: boom''\<rparr>),
      [minijs_handle_retain 7, minijs_handle_release 7, minijs_malloc 12])"
proof -
  have h: "engine thrower \<noteq> 0"
    "cb thrower [array_7] Value_Null = (Inl (std_exception ''boom''), [])"
    "alloc_ok host_1 alloc_message"
    by (simp_all add: thrower_def throwing_cb_def host_1_def)
  have p: "prepare host_1 [array_arg] None =
             (True, [array_7], Value_Null, [minijs_handle_retain 7])"
    by (simp add: prepare_def host_1_def array_arg_def array_7_def fromNative_def
        Value_Handle_def Kind_defs minijs_value_zero_def needs_string_def)
  have d: "Value_dtor array_7 = [minijs_handle_release 7]"
    by (simp add: array_7_def Value_Handle_def Value_dtor_def cleanup_def isHandleKind_def
        Value_Null_def)
  from trampoline_catches [OF h(1) p h(2,3), of runtime_1] h p show ?thesis
    by (simp add: d runtime_1_def c_str_def error_message_def Value_dtor_Null)
qed

text \<open>
  C1 as stated fails in two ways. When the runtime has no memory for the message,
  \<open>allocUtf8WithMinijsMalloc\<close> returns \<open>nullptr\<close> and the record carries no text. And
  when the host cannot allocate the \<open>std::string msg\<close> of the handler (the message of
  the \<open>catch (...)\<close> handler has 31 characters), \<open>std::bad_alloc\<close> is thrown inside the
  handler, outside the \<open>try\<close>, and leaves the trampoline.
\<close>

theorem trampoline_no_memory_counterexample:
  "engine thrower \<noteq> 0 \<and>
   prepare host_1 [] None = (True, [], Value_Null, []) \<and>
   cb thrower [] Value_Null = (Inl (std_exception ''boom''), []) \<and>
   trampoline runtime_no_memory host_1 [] None (Some thrower) =
     (Inr (minijs_value_zero\<lparr>nv_kind := MINIJS_STRING, nv_str := None\<rparr>),
      [minijs_malloc 12]) \<and>
   engine thrower_other \<noteq> 0 \<and>
   prepare host_no_message [] None = (True, [], Value_Null, []) \<and>
   cb thrower_other [] Value_Null = (Inl other_exception, []) \<and>
   trampoline runtime_1 host_no_message [] None (Some thrower_other) =
     (Inl (std_exception ''std::bad_alloc''), [])"
  by (simp add: thrower_def throwing_cb_def thrower_other_def throwing_other_cb_def
      trampoline_def try_block_def prepare_def catch_all_def allocUtf8WithMinijsMalloc_def
      runtime_no_memory_def runtime_1_def host_1_def host_no_message_def bad_alloc_def
      error_message_def Value_dtor_Null)

subsection \<open>Consumed handles\<close>

lemma detachHandle_Null: "detachHandle v = (v_h v, Value_Null)"
  by (simp add: detachHandle_def Value_Null_def)

lemma convert_return_handle:
  assumes "isHandleKind v"
  shows "convert_return rt v =
           (\<lparr>nv_kind = v_kind v, nv_num = double_0, nv_boolean = 0, nv_str = None,
             nv_handle = v_h v\<rparr>, if v_h v = 0 then v else Value_Null, [])"
  using assms handle_kind_cases [OF assms]
  by (simp add: convert_return_def detachHandle_Null toNumber_def toBool_def)

lemma Value_dtor_no_handle: "v_h v = 0 \<Longrightarrow> Value_dtor v = []"
  by (simp add: Value_dtor_def cleanup_def)

lemma try_block_returns_handle:
  assumes "isHandleKind v"
    and "prepare hs argv thisVal = (True, args, tv, cs_in)"
    and "cb b args tv = (Inr v, cs_cb)"
  shows "try_block rt hs argv thisVal b =
           (Inr \<lparr>nv_kind = v_kind v, nv_num = double_0, nv_boolean = 0, nv_str = None,
                 nv_handle = v_h v\<rparr>,
            cs_in @ cs_cb @ Value_dtor tv @ concat (map Value_dtor args))"
  using assms(2,3) handle_kind_cases(4) [OF assms(1)]
  by (simp add: try_block_def convert_return_handle [OF assms(1)] Value_dtor_Null
      Value_dtor_no_handle)

text \<open>
  C2, as the code has it. For every value \<open>v\<close> of a handle kind: \<open>detachHandle\<close> returns
  the handle and leaves the wrapper Null (kind Null, handle null), and destroying a Null
  wrapper releases nothing. \<open>addMethod\<close> on a class view that holds a handle passes the
  handle of \<open>v\<close> to \<open>minijs_class_add_method\<close> and leaves the function view Null; on a
  class view that holds none it throws before it detaches, the function view keeps
  \<open>v\<close>, and the destruction of \<open>v\<close> releases its handle once when it holds one.
  \<open>declareMove\<close> passes the handle to \<open>minijs_global_declare\<close>; it leaves the caller's
  wrapper Null when \<open>v\<close> holds a handle, and as it was when the handle of \<open>v\<close> is null.
  When a closure returns \<open>v\<close>, the trampoline puts the handle into the record it
  returns; it leaves \<open>ret\<close> Null when \<open>v\<close> holds a handle, and as it was when the handle
  is null; either way the calls after the closure's own are the destruction of the
  receiver and of the arguments only. A wrapper whose handle is null releases nothing
  when it is destroyed.
\<close>

theorem consumed_value_is_detached:
  assumes "isHandleKind v"
  shows "detachHandle v = (v_h v, Value_Null) \<and>
         v_kind Value_Null = Kind_Null \<and> v_h Value_Null = 0 \<and> Value_dtor Value_Null = [] \<and>
         (Class_handle cl \<noteq> 0 \<longrightarrow>
            addMethod cl methodName \<lparr>Function_v = v\<rparr> =
              (Inr (), \<lparr>Function_v = Value_Null\<rparr>,
               [minijs_class_add_method (Class_handle cl) (c_str methodName) (v_h v)])) \<and>
         (Class_handle cl = 0 \<longrightarrow>
            addMethod cl methodName \<lparr>Function_v = v\<rparr> =
              (Inl (runtime_error ''Class::addMethod on null handle''),
               \<lparr>Function_v = v\<rparr>, [])) \<and>
         (v_h v \<noteq> 0 \<longrightarrow> Value_dtor v = [minijs_handle_release (v_h v)]) \<and>
         (v_h v = 0 \<longrightarrow> Value_dtor v = []) \<and>
         declareMove e name v =
           (if v_h v = 0 then v else Value_Null,
            [minijs_global_declare (e_it e) (c_str name)
               \<lparr>nv_kind = v_kind v, nv_num = double_0, nv_boolean = 0, nv_str = None,
                nv_handle = v_h v\<rparr>]) \<and>
         convert_return rt v =
           (\<lparr>nv_kind = v_kind v, nv_num = double_0, nv_boolean = 0, nv_str = None,
             nv_handle = v_h v\<rparr>, if v_h v = 0 then v else Value_Null, []) \<and>
         (engine b \<noteq> 0 \<and> prepare hs argv thisVal = (True, args, tv, cs_in) \<and>
          cb b args tv = (Inr v, cs_cb) \<longrightarrow>
            trampoline rt hs argv thisVal (Some b) =
              (Inr \<lparr>nv_kind = v_kind v, nv_num = double_0, nv_boolean = 0, nv_str = None,
                    nv_handle = v_h v\<rparr>,
               cs_in @ cs_cb @ Value_dtor tv @ concat (map Value_dtor args)))"
proof -
  have detach: "detachHandle v = (v_h v, Value_Null)"
    by (rule detachHandle_Null)
  have null: "v_kind Value_Null = Kind_Null" "v_h Value_Null = 0"
    by (simp_all add: Value_Null_def)
  have added: "addMethod cl methodName \<lparr>Function_v = v\<rparr> =
              (Inr (), \<lparr>Function_v = Value_Null\<rparr>,
               [minijs_class_add_method (Class_handle cl) (c_str methodName) (v_h v)])"
    if "Class_handle cl \<noteq> 0"
    using that by (simp add: addMethod_def Function_detachHandle_def detachHandle_Null)
  have refused: "addMethod cl methodName \<lparr>Function_v = v\<rparr> =
              (Inl (runtime_error ''Class::addMethod on null handle''),
               \<lparr>Function_v = v\<rparr>, [])"
    if "Class_handle cl = 0"
    using that by (simp add: addMethod_def)
  have dtor: "Value_dtor v = [minijs_handle_release (v_h v)]" if "v_h v \<noteq> 0"
    using that by (rule Value_dtor_owner [OF assms])
  have moved: "declareMove e name v =
           (if v_h v = 0 then v else Value_Null,
            [minijs_global_declare (e_it e) (c_str name)
               \<lparr>nv_kind = v_kind v, nv_num = double_0, nv_boolean = 0, nv_str = None,
                nv_handle = v_h v\<rparr>])"
    using assms
    by (simp add: declareMove_def valueToNativeArg_handle detachHandle_Null free_tmp_def)
  have returned: "trampoline rt hs argv thisVal (Some b) =
              (Inr \<lparr>nv_kind = v_kind v, nv_num = double_0, nv_boolean = 0, nv_str = None,
                    nv_handle = v_h v\<rparr>,
               cs_in @ cs_cb @ Value_dtor tv @ concat (map Value_dtor args))"
    if "engine b \<noteq> 0" and "prepare hs argv thisVal = (True, args, tv, cs_in)"
      and "cb b args tv = (Inr v, cs_cb)"
    using that(1) try_block_returns_handle [OF assms that(2,3), of rt]
    by (simp add: trampoline_def)
  show ?thesis
    using detach null added refused dtor Value_dtor_no_handle [of v] moved returned
      convert_return_handle [OF assms, of rt] Value_dtor_Null
    by blast
qed

theorem consumed_value_is_detached_witness:
  "isHandleKind function_7 \<and> v_h function_7 = 7 \<and>
   detachHandle function_7 = (7, Value_Null) \<and>
   declareMove engine_1 ''f'' function_7 =
     (Value_Null,
      [minijs_global_declare 1 ''f''
         \<lparr>nv_kind = MINIJS_FUNCTION, nv_num = double_0, nv_boolean = 0, nv_str = None,
          nv_handle = 7\<rparr>]) \<and>
   Class_handle class_9 = 9 \<and>
   addMethod class_9 ''inc'' \<lparr>Function_v = function_7\<rparr> =
     (Inr (), \<lparr>Function_v = Value_Null\<rparr>, [minijs_class_add_method 9 ''inc'' 7]) \<and>
   Class_handle Class_default = 0 \<and>
   addMethod Class_default ''inc'' \<lparr>Function_v = function_7\<rparr> =
     (Inl (runtime_error ''Class::addMethod on null handle''),
      \<lparr>Function_v = function_7\<rparr>, []) \<and>
   Value_dtor function_7 = [minijs_handle_release 7] \<and>
   engine returner \<noteq> 0 \<and>
   prepare host_1 [] None = (True, [], Value_Null, []) \<and>
   cb returner [] Value_Null = (Inr function_7, []) \<and>
   trampoline runtime_1 host_1 [] None (Some returner) =
     (Inr \<lparr>nv_kind = MINIJS_FUNCTION, nv_num = double_0, nv_boolean = 0, nv_str = None,
           nv_handle = 7\<rparr>, []) \<and>
   isHandleKind object_null \<and> v_h object_null = 0 \<and>
   declareMove engine_1 ''ob'' object_null =
     (object_null,
      [minijs_global_declare 1 ''ob''
         \<lparr>nv_kind = MINIJS_OBJECT, nv_num = double_0, nv_boolean = 0, nv_str = None,
          nv_handle = 0\<rparr>]) \<and>
   convert_return runtime_1 object_null =
     (\<lparr>nv_kind = MINIJS_OBJECT, nv_num = double_0, nv_boolean = 0, nv_str = None,
       nv_handle = 0\<rparr>, object_null, []) \<and>
   Value_dtor object_null = []"
proof -
  have h: "isHandleKind function_7" "isHandleKind object_null"
    by (simp_all add: function_7_def object_null_def Value_Handle_def isHandleKind_def
        Value_Null_def)
  have p: "v_h function_7 = 7" "v_h object_null = 0" "v_kind function_7 = MINIJS_FUNCTION"
    "v_kind object_null = MINIJS_OBJECT"
    by (simp_all add: function_7_def object_null_def Value_Handle_def Kind_Function_def
        Kind_Object_def)
  have c: "Class_handle class_9 = 9" "Class_handle Class_default = 0"
    by (simp_all add: class_9_def Class_default_def Class_handle_def Value_Handle_def
        Value_Null_def)
  have r: "engine returner \<noteq> 0" "prepare host_1 [] None = (True, [], Value_Null, [])"
    "cb returner [] Value_Null = (Inr function_7, [])"
    by (simp_all add: returner_def returning_cb_def prepare_def)
  from consumed_value_is_detached [OF h(1), where e = engine_1 and name = "''f''"
      and cl = class_9 and methodName = "''inc''" and b = returner and hs = host_1
      and argv = "[]" and thisVal = None and args = "[]" and tv = Value_Null and cs_in = "[]"
      and cs_cb = "[]" and rt = runtime_1]
    consumed_value_is_detached [OF h(1), where cl = Class_default and methodName = "''inc''"]
    consumed_value_is_detached [OF h(2), where e = engine_1 and name = "''ob''"
      and rt = runtime_1]
    h p c r
  show ?thesis
    by (simp add: engine_1_def c_str_def Value_dtor_Null)
qed

text \<open>
  C2 as stated, for every value of a handle kind and every one of the four operations,
  fails in three places: \<open>addMethod\<close> on a class view without a handle throws before it
  detaches, and the function view keeps its handle, which its destruction releases;
  \<open>declareMove\<close> of a value of a handle kind whose handle is null leaves its kind as it
  was; and so does the trampoline with such a value that a closure returns.
\<close>

theorem consumed_value_kept_counterexample:
  "isHandleKind function_7 \<and> Class_handle Class_default = 0 \<and>
   addMethod Class_default ''inc'' \<lparr>Function_v = function_7\<rparr> =
     (Inl (runtime_error ''Class::addMethod on null handle''),
      \<lparr>Function_v = function_7\<rparr>, []) \<and>
   v_kind function_7 = Kind_Function \<and> v_h function_7 = 7 \<and>
   Value_dtor function_7 = [minijs_handle_release 7] \<and>
   isHandleKind array_null \<and>
   fst (declareMove engine_1 ''xs'' array_null) = array_null \<and>
   fst (snd (convert_return runtime_1 array_null)) = array_null \<and>
   v_kind array_null = Kind_Array"
  by (simp add: function_7_def array_null_def Value_Handle_def isHandleKind_def
      Value_Null_def Class_default_def Class_handle_def addMethod_def Value_dtor_def
      cleanup_def declareMove_def valueToNativeArg_def convert_return_def toNumber_def
      toBool_def Let_def Kind_defs)

subsection \<open>Retains and releases of wrappers\<close>

lemma retains_append: "retains h (cs @ cs') = retains h cs + retains h cs'"
  by (simp add: retains_def)

lemma releases_append: "releases h (cs @ cs') = releases h cs + releases h cs'"
  by (simp add: releases_def)

lemma owners_append: "owners h (st @ [w]) = owners h st + (if owns h w then 1 else 0)"
  by (simp add: owners_def)

lemma owners_update:
  "i < length st \<Longrightarrow>
   owners h (st[i := w]) + (if owns h (st ! i) then 1 else 0) =
   owners h st + (if owns h w then 1 else 0)"
proof (induction st arbitrary: i)
  case Nil
  then show ?case by simp
next
  case (Cons x st)
  show ?case
  proof (cases i)
    case 0
    then show ?thesis by (simp add: owners_def)
  next
    case (Suc j)
    with Cons.prems have "j < length st" by simp
    from Cons.IH [OF this] Suc show ?thesis by (simp add: owners_def)
  qed
qed

lemma wrapper_at_Some: "wrapper_at st i = Some v \<Longrightarrow> i < length st \<and> st ! i = Some v"
  by (simp add: wrapper_at_def split: if_splits)

lemma owns_moved_from: "\<not> owns h (Some (moved_from v))"
  by (simp add: owns_def moved_from_def isHandleKind_def Kind_defs)

lemma owns_None: "\<not> owns h None"
  by (simp add: owns_def)

lemma retains_Value_dtor: "retains h (Value_dtor v) = 0"
  by (simp add: retains_def Value_dtor_def cleanup_def)

lemma releases_Value_dtor:
  "h \<noteq> 0 \<Longrightarrow> releases h (Value_dtor v) = (if owns h (Some v) then 1 else 0)"
  by (auto simp: releases_def Value_dtor_def cleanup_def owns_def)

lemma calls_Value_copy:
  "h \<noteq> 0 \<Longrightarrow> retains h (snd (Value_copy v)) = (if owns h (Some v) then 1 else 0)"
  "releases h (snd (Value_copy v)) = 0"
  by (auto simp: retains_def releases_def Value_copy_def owns_def)

lemma calls_Value_copy_assign:
  "h \<noteq> 0 \<Longrightarrow>
   retains h (snd (Value_copy_assign this v)) = (if owns h (Some v) then 1 else 0)"
  "h \<noteq> 0 \<Longrightarrow>
   releases h (snd (Value_copy_assign this v)) = (if owns h (Some this) then 1 else 0)"
  by (auto simp: retains_def releases_def Value_copy_assign_def cleanup_def owns_def)

lemma step_balance:
  assumes "step p st = Some (st', cs)" and "h \<noteq> 0"
  shows "owners h st + retains h cs = owners h st' + releases h cs"
proof (cases p)
  case (CopyConstruct src)
  with assms(1) obtain v where v: "wrapper_at st src = Some v"
    and st': "st' = st @ [Some v]" and cs: "cs = snd (Value_copy v)"
    by (auto simp: Value_copy_def split: option.splits)
  show ?thesis
    unfolding st' cs using assms(2) by (simp add: owners_append calls_Value_copy)
next
  case (MoveConstruct src)
  with assms(1) obtain v where v: "wrapper_at st src = Some v"
    and st': "st' = st[src := Some (moved_from v)] @ [Some v]" and cs: "cs = []"
    by (auto simp: Value_move_def split: option.splits)
  from wrapper_at_Some [OF v] owners_update [of src st h "Some (moved_from v)"]
  have "owners h (st[src := Some (moved_from v)]) + (if owns h (Some v) then 1 else 0) =
        owners h st"
    by (simp add: owns_moved_from)
  then show ?thesis
    unfolding st' cs by (simp add: owners_append retains_def releases_def)
next
  case (CopyAssign dst src)
  show ?thesis
  proof (cases "dst = src")
    case True
    with assms(1) CopyAssign have "st' = st" "cs = []"
      by (auto split: option.splits)
    then show ?thesis by (simp add: retains_def releases_def)
  next
    case False
    with assms(1) CopyAssign obtain old v where old: "wrapper_at st dst = Some old"
      and v: "wrapper_at st src = Some v"
      and st': "st' = st[dst := Some v]" and cs: "cs = snd (Value_copy_assign old v)"
      by (auto simp: Value_copy_assign_def split: option.splits)
    from wrapper_at_Some [OF old] owners_update [of dst st h "Some v"]
    have "owners h st' + (if owns h (Some old) then 1 else 0) =
          owners h st + (if owns h (Some v) then 1 else 0)"
      unfolding st' by simp
    then show ?thesis
      unfolding cs using assms(2) by (simp add: calls_Value_copy_assign)
  qed
next
  case (MoveAssign dst src)
  show ?thesis
  proof (cases "dst = src")
    case True
    with assms(1) MoveAssign have "st' = st" "cs = []"
      by (auto split: option.splits)
    then show ?thesis by (simp add: retains_def releases_def)
  next
    case False
    with assms(1) MoveAssign obtain old v where old: "wrapper_at st dst = Some old"
      and v: "wrapper_at st src = Some v"
      and st': "st' = st[dst := Some v, src := Some (moved_from v)]"
      and cs: "cs = Value_dtor old"
      by (auto simp: Value_move_assign_def Value_dtor_def split: option.splits)
    from wrapper_at_Some [OF old] owners_update [of dst st h "Some v"]
    have 1: "owners h (st[dst := Some v]) + (if owns h (Some old) then 1 else 0) =
          owners h st + (if owns h (Some v) then 1 else 0)"
      by simp
    from wrapper_at_Some [OF v] False
    have "src < length (st[dst := Some v])" "st[dst := Some v] ! src = Some v"
      by simp_all
    with owners_update [of src "st[dst := Some v]" h "Some (moved_from v)"]
    have 2: "owners h st' + (if owns h (Some v) then 1 else 0) = owners h (st[dst := Some v])"
      unfolding st' by (simp add: owns_moved_from)
    from 1 2 show ?thesis
      unfolding cs using assms(2) by (simp add: retains_Value_dtor releases_Value_dtor)
  qed
next
  case (Destroy i)
  with assms(1) obtain v where v: "wrapper_at st i = Some v"
    and st': "st' = st[i := None]" and cs: "cs = Value_dtor v"
    by (auto split: option.splits)
  from wrapper_at_Some [OF v] owners_update [of i st h None]
  have "owners h st' + (if owns h (Some v) then 1 else 0) = owners h st"
    unfolding st' by (simp add: owns_None)
  then show ?thesis
    unfolding cs using assms(2) by (simp add: retains_Value_dtor releases_Value_dtor)
qed

lemma run_balance:
  assumes "run ps st = Some (st', cs)" and "h \<noteq> 0"
  shows "owners h st + retains h cs = owners h st' + releases h cs"
  using assms(1)
proof (induction ps arbitrary: st cs)
  case Nil
  then show ?case by (simp add: retains_def releases_def)
next
  case (Cons p ps)
  from Cons.prems obtain st1 cs1 cs2 where s: "step p st = Some (st1, cs1)"
    and r: "run ps st1 = Some (st', cs2)" and cs: "cs = cs1 @ cs2"
    by (auto split: option.splits)
  from step_balance [OF s assms(2)] Cons.IH [OF r] show ?case
    unfolding cs by (simp add: retains_append releases_append)
qed

lemma step_of_wrapper:
  assumes "wrapper_at st src = Some v"
  shows "step (CopyConstruct src) st = Some (st @ [Some v], snd (Value_copy v))"
    and "step (MoveConstruct src) st = Some (st[src := Some (moved_from v)] @ [Some v], [])"
    and "step (CopyAssign src src) st = Some (st, [])"
    and "step (MoveAssign src src) st = Some (st, [])"
    and "step (Destroy src) st = Some (st[src := None], Value_dtor v)"
  using assms by (simp_all add: Value_copy_def Value_move_def)

lemma step_assign_other:
  assumes "wrapper_at st src = Some v" and "dst \<noteq> src" and "wrapper_at st dst = Some old"
  shows "step (CopyAssign dst src) st =
           Some (st[dst := Some v], snd (Value_copy_assign old v))"
    and "step (MoveAssign dst src) st =
           Some (st[dst := Some v, src := Some (moved_from v)], Value_dtor old)"
  using assms by (simp_all add: Value_copy_assign_def Value_move_assign_def Value_dtor_def)

text \<open>
  C3, as the code has it. For every value \<open>v\<close> of a handle kind: copy construction
  makes one call, the retain of the handle, when \<open>v\<close> holds a handle, and none when the
  handle is null; copy assignment to another wrapper \<open>dst\<close> releases what \<open>dst\<close> held and
  then retains the handle of \<open>v\<close> in the same way; move construction makes no call and
  move assignment to another wrapper makes no retain, its only call being the release
  of what \<open>dst\<close> held (a release of the same handle when \<open>dst\<close> owned one too), and both
  leave the source Null; copy or move assignment of a wrapper to itself makes no call
  and changes no wrapper; the destruction of \<open>v\<close> releases the handle once when \<open>v\<close>
  holds one, and makes no call when the handle is null. Over every program of copies,
  moves, assignments and destructions, the wrappers that own a handle at the start
  plus the retains are the wrappers that own it at the end plus the releases; so when
  none owns it at the end, the releases are the retains plus the owners at the start.
\<close>

theorem wrapper_reference_counting:
  assumes "isHandleKind v"
  shows "Value_copy v = (v, if v_h v = 0 then [] else [minijs_handle_retain (v_h v)]) \<and>
         Value_copy_assign dst v =
           (v, Value_dtor dst @ (if v_h v = 0 then [] else [minijs_handle_retain (v_h v)])) \<and>
         (v_h v \<noteq> 0 \<longrightarrow> retains (v_h v) (snd (Value_copy_assign dst v)) = 1) \<and>
         Value_move v = (v, moved_from v) \<and>
         Value_move_assign dst v = (v, moved_from v, Value_dtor dst) \<and>
         v_kind (moved_from v) = Kind_Null \<and> v_h (moved_from v) = 0 \<and>
         Value_dtor dst =
           (if isHandleKind dst \<and> v_h dst \<noteq> 0 then [minijs_handle_release (v_h dst)] else []) \<and>
         Value_dtor v = (if v_h v = 0 then [] else [minijs_handle_release (v_h v)]) \<and>
         (\<forall>st src. wrapper_at st src = Some v \<longrightarrow>
            step (CopyConstruct src) st = Some (st @ [Some v], snd (Value_copy v)) \<and>
            step (MoveConstruct src) st =
              Some (st[src := Some (moved_from v)] @ [Some v], []) \<and>
            step (CopyAssign src src) st = Some (st, []) \<and>
            step (MoveAssign src src) st = Some (st, []) \<and>
            step (Destroy src) st = Some (st[src := None], Value_dtor v) \<and>
            (\<forall>dst old. dst \<noteq> src \<and> wrapper_at st dst = Some old \<longrightarrow>
               step (CopyAssign dst src) st =
                 Some (st[dst := Some v], snd (Value_copy_assign old v)) \<and>
               step (MoveAssign dst src) st =
                 Some (st[dst := Some v, src := Some (moved_from v)], Value_dtor old))) \<and>
         (v_h v \<noteq> 0 \<longrightarrow>
            (\<forall>ps st st' cs. run ps st = Some (st', cs) \<longrightarrow>
               owners (v_h v) st + retains (v_h v) cs =
               owners (v_h v) st' + releases (v_h v) cs)) \<and>
         (v_h v \<noteq> 0 \<longrightarrow>
            (\<forall>ps st st' cs. run ps st = Some (st', cs) \<and> owners (v_h v) st' = 0 \<longrightarrow>
               releases (v_h v) cs = retains (v_h v) cs + owners (v_h v) st))"
proof -
  have copy: "Value_copy v = (v, if v_h v = 0 then [] else [minijs_handle_retain (v_h v)])"
    using assms by (simp add: Value_copy_def)
  have assign: "Value_copy_assign dst v =
           (v, Value_dtor dst @ (if v_h v = 0 then [] else [minijs_handle_retain (v_h v)]))"
    using assms by (simp add: Value_copy_assign_def Value_dtor_def)
  have once: "retains (v_h v) (snd (Value_copy_assign dst v)) = 1" if "v_h v \<noteq> 0"
    using assms that by (simp add: calls_Value_copy_assign owns_def)
  have move: "Value_move v = (v, moved_from v)"
    "Value_move_assign dst v = (v, moved_from v, Value_dtor dst)"
    by (simp_all add: Value_move_def Value_move_assign_def Value_dtor_def)
  have null: "v_kind (moved_from v) = Kind_Null" "v_h (moved_from v) = 0"
    by (simp_all add: moved_from_def)
  have dtor: "Value_dtor dst =
           (if isHandleKind dst \<and> v_h dst \<noteq> 0 then [minijs_handle_release (v_h dst)] else [])"
    "Value_dtor v = (if v_h v = 0 then [] else [minijs_handle_release (v_h v)])"
    using assms by (auto simp: Value_dtor_def cleanup_def)
  have steps: "\<forall>st src. wrapper_at st src = Some v \<longrightarrow>
            step (CopyConstruct src) st = Some (st @ [Some v], snd (Value_copy v)) \<and>
            step (MoveConstruct src) st =
              Some (st[src := Some (moved_from v)] @ [Some v], []) \<and>
            step (CopyAssign src src) st = Some (st, []) \<and>
            step (MoveAssign src src) st = Some (st, []) \<and>
            step (Destroy src) st = Some (st[src := None], Value_dtor v) \<and>
            (\<forall>dst old. dst \<noteq> src \<and> wrapper_at st dst = Some old \<longrightarrow>
               step (CopyAssign dst src) st =
                 Some (st[dst := Some v], snd (Value_copy_assign old v)) \<and>
               step (MoveAssign dst src) st =
                 Some (st[dst := Some v, src := Some (moved_from v)], Value_dtor old))"
    by (simp add: step_of_wrapper step_assign_other del: step.simps)
  have balance: "\<forall>ps st st' cs. run ps st = Some (st', cs) \<longrightarrow>
            owners (v_h v) st + retains (v_h v) cs = owners (v_h v) st' + releases (v_h v) cs"
    if "v_h v \<noteq> 0"
    using run_balance [OF _ that] by blast
  have finished: "\<forall>ps st st' cs. run ps st = Some (st', cs) \<and> owners (v_h v) st' = 0 \<longrightarrow>
            releases (v_h v) cs = retains (v_h v) cs + owners (v_h v) st"
    if "v_h v \<noteq> 0"
    using run_balance [OF _ that] by fastforce
  show ?thesis
    using copy assign once move null dtor steps balance finished
    by (intro conjI impI) assumption+
qed

lemma run_program_1:
  "run program_1 [Some array_7] =
     Some ([None, None, None],
       [minijs_handle_retain 7, minijs_handle_release 7, minijs_handle_retain 7,
        minijs_handle_release 7, minijs_handle_release 7])"
  by code_simp

theorem wrapper_reference_counting_witness:
  "isHandleKind array_7 \<and> v_h array_7 = 7 \<and>
   Value_copy array_7 = (array_7, [minijs_handle_retain 7]) \<and>
   Value_copy_assign object_9 array_7 =
     (array_7, [minijs_handle_release 9, minijs_handle_retain 7]) \<and>
   Value_move array_7 = (array_7, Value_Null) \<and>
   Value_move_assign object_9 array_7 = (array_7, Value_Null, [minijs_handle_release 9]) \<and>
   Value_dtor array_7 = [minijs_handle_release 7] \<and>
   wrapper_at [Some object_9, Some array_7] 1 = Some array_7 \<and>
   wrapper_at [Some object_9, Some array_7] 0 = Some object_9 \<and>
   step (CopyAssign 1 1) [Some object_9, Some array_7] =
     Some ([Some object_9, Some array_7], []) \<and>
   step (MoveAssign 1 1) [Some object_9, Some array_7] =
     Some ([Some object_9, Some array_7], []) \<and>
   step (MoveAssign 0 1) [Some object_9, Some array_7] =
     Some ([Some array_7, Some Value_Null], [minijs_handle_release 9]) \<and>
   run program_1 [Some array_7] =
     Some ([None, None, None],
       [minijs_handle_retain 7, minijs_handle_release 7, minijs_handle_retain 7,
        minijs_handle_release 7, minijs_handle_release 7]) \<and>
   owners 7 [Some array_7] +
   retains 7 [minijs_handle_retain 7, minijs_handle_release 7, minijs_handle_retain 7,
        minijs_handle_release 7, minijs_handle_release 7] =
   owners 7 [None, None, None] +
   releases 7 [minijs_handle_retain 7, minijs_handle_release 7, minijs_handle_retain 7,
        minijs_handle_release 7, minijs_handle_release 7] \<and>
   isHandleKind array_null \<and> v_h array_null = 0 \<and>
   Value_copy array_null = (array_null, []) \<and> Value_dtor array_null = []"
proof -
  have h: "isHandleKind array_7" "isHandleKind array_null"
    by (simp_all add: array_7_def array_null_def Value_Handle_def isHandleKind_def
        Value_Null_def)
  have p: "v_h array_7 = 7" "v_h array_null = 0"
    by (simp_all add: array_7_def array_null_def Value_Handle_def)
  have 9: "Value_dtor object_9 = [minijs_handle_release 9]"
    by (simp add: object_9_def Value_Handle_def Value_dtor_def cleanup_def isHandleKind_def
        Value_Null_def Kind_defs)
  have m: "moved_from array_7 = Value_Null"
    by (simp add: moved_from_def Value_Null_def)
  have w: "wrapper_at [Some object_9, Some array_7] 1 = Some array_7"
    "wrapper_at [Some object_9, Some array_7] 0 = Some object_9"
    by (simp_all add: wrapper_at_def)
  note t = wrapper_reference_counting [OF h(1), of object_9]
  note n = wrapper_reference_counting [OF h(2), of object_9]
  from t have a: "Value_copy array_7 = (array_7, [minijs_handle_retain 7])"
    "Value_copy_assign object_9 array_7 =
       (array_7, [minijs_handle_release 9, minijs_handle_retain 7])"
    "Value_move array_7 = (array_7, Value_Null)"
    "Value_move_assign object_9 array_7 = (array_7, Value_Null, [minijs_handle_release 9])"
    "Value_dtor array_7 = [minijs_handle_release 7]"
    by (simp_all add: p 9 m)
  from t w have s: "step (CopyAssign 1 1) [Some object_9, Some array_7] =
     Some ([Some object_9, Some array_7], [])"
    "step (MoveAssign 1 1) [Some object_9, Some array_7] =
     Some ([Some object_9, Some array_7], [])"
    "step (MoveAssign 0 1) [Some object_9, Some array_7] =
     Some ([Some array_7, Some Value_Null], [minijs_handle_release 9])"
    by (simp_all add: 9 m)
  from t run_program_1 have b: "owners 7 [Some array_7] +
   retains 7 [minijs_handle_retain 7, minijs_handle_release 7, minijs_handle_retain 7,
        minijs_handle_release 7, minijs_handle_release 7] =
   owners 7 [None, None, None] +
   releases 7 [minijs_handle_retain 7, minijs_handle_release 7, minijs_handle_retain 7,
        minijs_handle_release 7, minijs_handle_release 7]"
    unfolding p by auto
  from n have z: "Value_copy array_null = (array_null, [])" "Value_dtor array_null = []"
    by (simp_all add: p)
  from h p a w s run_program_1 b z show ?thesis
    by (intro conjI) assumption+
qed

text \<open>
  C3 as stated fails in five places: the copy of a value of a handle kind whose handle
  is null retains nothing, and its destruction releases nothing; the assignment of a
  wrapper to itself makes no call and leaves the source of a move as it was; a move
  assignment onto a wrapper that owns a handle releases it; and a wrapper that is
  copied, after which both are destroyed, is retained once and released twice, the
  second release being that of the reference it was created with.
\<close>

theorem wrapper_reference_counting_counterexample:
  "isHandleKind array_null \<and> Value_copy array_null = (array_null, []) \<and>
   Value_dtor array_null = [] \<and>
   step (CopyAssign 0 0) [Some array_7] = Some ([Some array_7], []) \<and>
   step (MoveAssign 0 0) [Some array_7] = Some ([Some array_7], []) \<and>
   Value_move_assign array_7 array_7 = (array_7, Value_Null, [minijs_handle_release 7]) \<and>
   run program_2 [Some array_7] =
     Some ([None, None],
       [minijs_handle_retain 7, minijs_handle_release 7, minijs_handle_release 7]) \<and>
   retains 7 [minijs_handle_retain 7, minijs_handle_release 7, minijs_handle_release 7] = 1 \<and>
   releases 7 [minijs_handle_retain 7, minijs_handle_release 7, minijs_handle_release 7] = 2"
proof -
  have "isHandleKind array_null" "Value_copy array_null = (array_null, [])"
    "Value_dtor array_null = []"
    by (simp_all add: array_null_def Value_Handle_def isHandleKind_def Value_Null_def
        Value_copy_def Value_dtor_def cleanup_def)
  moreover have "step (CopyAssign 0 0) [Some array_7] = Some ([Some array_7], [])"
    "step (MoveAssign 0 0) [Some array_7] = Some ([Some array_7], [])"
    by (simp_all add: wrapper_at_def)
  moreover have
    "Value_move_assign array_7 array_7 = (array_7, Value_Null, [minijs_handle_release 7])"
    by (simp add: Value_move_assign_def moved_from_def Value_Null_def cleanup_def array_7_def
        Value_Handle_def isHandleKind_def)
  moreover have "run program_2 [Some array_7] =
     Some ([None, None],
       [minijs_handle_retain 7, minijs_handle_release 7, minijs_handle_release 7])"
    by code_simp
  moreover have
    "retains 7 [minijs_handle_retain 7, minijs_handle_release 7, minijs_handle_release 7] = 1"
    "releases 7 [minijs_handle_retain 7, minijs_handle_release 7, minijs_handle_release 7] = 2"
    by (simp_all add: retains_def releases_def)
  ultimately show ?thesis
    by (simp only: simp_thms)
qed

subsection \<open>The parser of the keys\<close>

lemma read_key_plain:
  assumes "c \<noteq> CHR 0x22" and "c \<noteq> CHR 0x5C" and "s \<noteq> []"
  shows "read_key cur (c # s) = read_key (cur @ [c]) s"
  using assms by (cases s) simp_all

lemma read_key_escaped: "read_key cur (CHR 0x5C # e # s) = read_key (cur @ [unescape e]) s"
  by simp

lemma read_key_escape_char:
  assumes "s \<noteq> []"
  shows "read_key cur (spec_escape_char c @ s) = read_key (cur @ [c]) s"
proof -
  consider "c = CHR 0x5C" | "c = CHR 0x22" | "c = CHR 0x0A" | "c = CHR 0x0D" | "c = CHR 0x09"
    | "c \<noteq> CHR 0x5C" "c \<noteq> CHR 0x22" "c \<noteq> CHR 0x0A" "c \<noteq> CHR 0x0D" "c \<noteq> CHR 0x09"
    by blast
  then show ?thesis
  proof cases
    case 6
    then show ?thesis
      using assms by (simp add: spec_escape_char_def read_key_plain)
  qed (simp_all add: spec_escape_char_def unescape_def)
qed

lemma read_key_quoted:
  "read_key cur (concat (map spec_escape_char k) @ CHR 0x22 # s) = (cur @ k, s)"
proof (induction k arbitrary: cur)
  case Nil
  show ?case by (cases s) simp_all
next
  case (Cons c k)
  have "read_key cur (spec_escape_char c @ (concat (map spec_escape_char k) @ CHR 0x22 # s)) =
        read_key (cur @ [c]) (concat (map spec_escape_char k) @ CHR 0x22 # s)"
    by (rule read_key_escape_char) simp
  with Cons.IH [of "cur @ [c]"] show ?case by simp
qed

lemma skipws_no_ws: "\<not> is_ws c \<Longrightarrow> skipws (c # s) = c # s"
  by (simp add: skipws_def)

lemma not_ws: "\<not> is_ws (CHR 0x22)" "\<not> is_ws (CHR '']'')" "\<not> is_ws (CHR '','')"
  by (simp_all add: is_ws_def)

lemma keys_loop_closing: "keys_loop res (CHR '']'' # s) = res"
  by (subst keys_loop.simps) (simp add: skipws_no_ws not_ws)

lemma keys_loop_last: "keys_loop res (spec_quote_key k @ CHR '']'' # s) = res @ [k]"
  by (subst keys_loop.simps) (simp add: spec_quote_key_def skipws_no_ws not_ws read_key_quoted)

lemma keys_loop_next:
  "keys_loop res (spec_quote_key k @ CHR '','' # s) = keys_loop (res @ [k]) s"
  by (subst keys_loop.simps) (simp add: spec_quote_key_def skipws_no_ws not_ws read_key_quoted)

lemma keys_loop_join: "keys_loop res (spec_join_keys ks @ CHR '']'' # s) = res @ ks"
proof (induction ks arbitrary: res rule: spec_join_keys.induct)
  case 1
  show ?case by (simp add: keys_loop_closing)
next
  case (2 k)
  show ?case by (simp add: keys_loop_last)
next
  case (3 k k' ks)
  have "keys_loop res (spec_join_keys (k # k' # ks) @ CHR '']'' # s) =
        keys_loop (res @ [k]) (spec_join_keys (k' # ks) @ CHR '']'' # s)"
    using keys_loop_next [of res k "spec_join_keys (k' # ks) @ CHR '']'' # s"] by simp
  with "3.IH" [of "res @ [k]"] show ?case by simp
qed

lemma join_keys_head: "spec_join_keys ks @ CHR '']'' # s \<noteq> [] \<and> \<not> is_ws (hd (spec_join_keys ks @ CHR '']'' # s))"
  by (induction ks rule: spec_join_keys.induct) (simp_all add: spec_quote_key_def not_ws)

lemma parse_render_keys: "parse_keys (spec_render_keys ks) = ks"
proof -
  obtain c s where cs: "spec_join_keys ks @ [CHR '']''] = c # s" and c: "\<not> is_ws c"
    using join_keys_head [of ks "[]"] by (cases "spec_join_keys ks @ [CHR '']'']") auto
  have "parse_keys (spec_render_keys ks) = keys_loop [] (skipws (spec_join_keys ks @ [CHR '']'']))"
    by (simp add: parse_keys_def spec_render_keys_def skipws_def is_ws_def)
  also have "\<dots> = keys_loop [] (spec_join_keys ks @ [CHR '']''])"
    unfolding cs using c by (simp add: skipws_no_ws)
  also have "\<dots> = ks"
    using keys_loop_join [of "[]" ks "[]"] by simp
  finally show ?thesis .
qed

lemma parse_keys_no_bracket:
  assumes "skipws s = [] \<or> hd (skipws s) \<noteq> CHR ''[''"
  shows "parse_keys s = []"
  using assms by (auto simp: parse_keys_def Let_def)

text \<open>
  C4. Inside a key, a backslash and the character after it are read as one character:
  backslash, double quote, newline, carriage return and tab when that character is a
  backslash, a double quote, \<open>n\<close>, \<open>r\<close> or \<open>t\<close>, and the character itself for any other.
  So every list of keys written in the format is read back as it was. The text
  \<open>["a","b\n","c\""]\<close> gives \<open>a\<close>, \<open>b\<close> with a newline, \<open>c\<close> with a quote. The parser is a total function, so it has a result and
  throws nothing on every text: a lone \<open>[\<close> gives no key, an unclosed text gives the
  keys read so far, and a text that does not start with \<open>[\<close> gives no key.
  \<open>Object::keys\<close> on a view with a handle is this parser on the text of the runtime.
\<close>

theorem keys_parser:
  "read_key cur (CHR 0x5C # e # s) = read_key (cur @ [unescape e]) s \<and>
   unescape (CHR 0x5C) = CHR 0x5C \<and> unescape (CHR 0x22) = CHR 0x22 \<and>
   unescape (CHR ''n'') = CHR 0x0A \<and> unescape (CHR ''r'') = CHR 0x0D \<and>
   unescape (CHR ''t'') = CHR 0x09 \<and>
   (e \<noteq> CHR ''n'' \<and> e \<noteq> CHR ''r'' \<and> e \<noteq> CHR ''t'' \<longrightarrow> unescape e = e) \<and>
   parse_keys (spec_render_keys ks) = ks \<and>
   parse_keys keys_text_1 = [''a'', [CHR ''b'', CHR 0x0A], [CHR ''c'', CHR 0x22]] \<and>
   parse_keys ''['' = [] \<and>
   parse_keys keys_text_2 = [''a'', ''b''] \<and>
   parse_keys keys_text_3 = [] \<and>
   (skipws json = [] \<or> hd (skipws json) \<noteq> CHR ''['' \<longrightarrow> parse_keys json = []) \<and>
   (Object_handle ob \<noteq> 0 \<and> object_keys_result rt (Object_handle ob) = Some json \<longrightarrow>
      Object_keys rt ob =
        (parse_keys json, [minijs_object_keys (Object_handle ob), minijs_free json])) \<and>
   (Object_handle ob \<noteq> 0 \<and> object_keys_result rt (Object_handle ob) = None \<longrightarrow>
      Object_keys rt ob = ([], [minijs_object_keys (Object_handle ob)]))"
proof -
  have escapes: "unescape (CHR 0x5C) = CHR 0x5C" "unescape (CHR 0x22) = CHR 0x22"
    "unescape (CHR ''n'') = CHR 0x0A" "unescape (CHR ''r'') = CHR 0x0D"
    "unescape (CHR ''t'') = CHR 0x09"
    "e \<noteq> CHR ''n'' \<and> e \<noteq> CHR ''r'' \<and> e \<noteq> CHR ''t'' \<longrightarrow> unescape e = e"
    by (simp_all add: unescape_def)
  have example: "parse_keys keys_text_1 = [''a'', [CHR ''b'', CHR 0x0A], [CHR ''c'', CHR 0x22]]"
    by code_simp
  have malformed: "parse_keys ''['' = []" "parse_keys keys_text_2 = [''a'', ''b'']"
    "parse_keys keys_text_3 = []"
    by code_simp+
  have keys: "Object_handle ob \<noteq> 0 \<and> object_keys_result rt (Object_handle ob) = Some json \<longrightarrow>
      Object_keys rt ob =
        (parse_keys json, [minijs_object_keys (Object_handle ob), minijs_free json])"
    "Object_handle ob \<noteq> 0 \<and> object_keys_result rt (Object_handle ob) = None \<longrightarrow>
      Object_keys rt ob = ([], [minijs_object_keys (Object_handle ob)])"
    by (simp_all add: Object_keys_def)
  show ?thesis
    using read_key_escaped [of cur e s] escapes parse_render_keys [of ks] example malformed
      parse_keys_no_bracket [of json] keys
    by blast
qed

theorem keys_parser_witness:
  "hd (skipws ''{}'') \<noteq> CHR ''['' \<and> parse_keys ''{}'' = [] \<and>
   unescape (CHR ''u'') = CHR ''u'' \<and>
   read_key ''k'' [CHR 0x5C, CHR ''u'', CHR 0x22] = (''ku'', []) \<and>
   parse_keys (spec_render_keys [[CHR ''a'', CHR 0x5C, CHR 0x09], []]) =
     [[CHR ''a'', CHR 0x5C, CHR 0x09], []] \<and>
   Object_handle \<lparr>Object_v = object_7\<rparr> = 7 \<and>
   object_keys_result runtime_keys 7 = Some keys_text_1 \<and>
   Object_keys runtime_keys \<lparr>Object_v = object_7\<rparr> =
     ([''a'', [CHR ''b'', CHR 0x0A], [CHR ''c'', CHR 0x22]],
      [minijs_object_keys 7, minijs_free keys_text_1]) \<and>
   object_keys_result runtime_1 7 = None \<and>
   Object_keys runtime_1 \<lparr>Object_v = object_7\<rparr> = ([], [minijs_object_keys 7])"
proof -
  have h: "hd (skipws ''{}'') \<noteq> CHR ''[''"
    by (simp add: skipws_def is_ws_def)
  have o: "Object_handle \<lparr>Object_v = object_7\<rparr> = 7"
    by (simp add: Object_handle_def object_7_def Value_Handle_def)
  have k: "object_keys_result runtime_keys 7 = Some keys_text_1"
    "object_keys_result runtime_1 7 = None"
    by (simp_all add: runtime_keys_def runtime_1_def)
  from keys_parser [where cur = "''k''" and e = "CHR ''u''" and s = "[CHR 0x22]"
      and ks = "[[CHR ''a'', CHR 0x5C, CHR 0x09], []]" and json = "''{}''"]
    keys_parser [where ob = "\<lparr>Object_v = object_7\<rparr>" and rt = runtime_keys
      and json = keys_text_1]
    keys_parser [where ob = "\<lparr>Object_v = object_7\<rparr>" and rt = runtime_1]
    h o k
  show ?thesis
    by simp
qed

end
